theory Spec2Isabelle
  imports Main "HOL-Library.Word"
begin

section \<open>Exceptions\<close>

text \<open>
  Every Python exception the modelled code can raise is a value of \<open>exn\<close>; a function
  that can raise returns \<open>exn + 'a\<close> with \<open>Inl\<close> for the exception.
  \<^item> \<open>ValueError msg\<close>: a \<^verbatim>\<open>ValueError\<close> with a constant message;
  \<^item> \<open>ValueError_tables_exist clashing schema\<close>: the \<^verbatim>\<open>ValueError\<close> of
    \<^verbatim>\<open>import_tables\<close> whose message is
    \<^verbatim>\<open>"Table(s) %r already exist(s) at %s!" % (clashing, self)\<close>;
  \<^item> \<open>RuntimeError msg\<close> and \<open>RecursionError\<close>: what the interpreter raises when a
    dictionary changes size while it is iterated, and when the calls nest deeper than the
    recursion limit;
  \<^item> \<open>Raised msg\<close>: any other exception of class \<^verbatim>\<open>Exception\<close> that an engine or
    object-manager operation outside the modelled files raises;
  \<^item> \<open>BaseException msg\<close>: an exception that is a \<^verbatim>\<open>BaseException\<close> and not an
    \<^verbatim>\<open>Exception\<close> (\<^verbatim>\<open>KeyboardInterrupt\<close>, \<^verbatim>\<open>SystemExit\<close>, \<^verbatim>\<open>GeneratorExit\<close>).
  \<open>is_Exception e\<close> is \<^verbatim>\<open>isinstance(e, Exception)\<close>, the test of an
  \<^verbatim>\<open>except Exception\<close> clause.
\<close>

datatype exn =
    ValueError string
  | ValueError_tables_exist "string list" string
  | IndexError
  | AssertionError
  | RuntimeError string
  | RecursionError
  | SplitGraphException string
  | ImageNotFoundError string
  | TableNotFoundError string
  | Raised string
  | BaseException string

definition is_Exception :: "exn \<Rightarrow> bool" where
  "is_Exception e = (case e of BaseException _ \<Rightarrow> False | _ \<Rightarrow> True)"

section \<open>Repositories and their schema names\<close>

text \<open>
  \<^verbatim>\<open>Repository.__init__\<close> stores the namespace, the repository name and the two engines;
  an engine is identified by its name. When no engine is passed the constructor takes
  \<^verbatim>\<open>get_engine()\<close>, the ambient default engine, which is a parameter here.
  \<^verbatim>\<open>__eq__\<close> compares the namespace and the repository name only.
\<close>

record Repository =
  namespace :: string
  repository :: string
  engine :: string
  object_engine :: string

definition Repository_init :: "string \<Rightarrow> string \<Rightarrow> string \<Rightarrow> Repository" where
  "Repository_init get_engine ns repo =
     \<lparr>namespace = ns, repository = repo, engine = get_engine, object_engine = get_engine\<rparr>"

definition Repository_eq :: "Repository \<Rightarrow> Repository \<Rightarrow> bool" where
  "Repository_eq a b = (namespace a = namespace b \<and> repository a = repository b)"

text \<open>
  Python's \<^verbatim>\<open>s.split(sep)\<close> for a one-character separator: the pieces between the
  separators, so that a string without the separator (the empty string too) gives the
  one-element list holding it.
\<close>

fun str_split :: "char \<Rightarrow> string \<Rightarrow> string list" where
  "str_split sep [] = [[]]"
| "str_split sep (c # cs) =
     (if c = sep then [] # str_split sep cs
      else (case str_split sep cs of
              [] \<Rightarrow> [[c]]
            | w # ws \<Rightarrow> (c # w) # ws))"

text \<open>
  \<^verbatim>\<open>from_schema\<close>: the tuple assignment \<^verbatim>\<open>namespace, repository = schema.split("/")\<close>
  raises \<^verbatim>\<open>ValueError\<close> unless the split has exactly two pieces.
\<close>

definition from_schema :: "string \<Rightarrow> string \<Rightarrow> exn + Repository" where
  "from_schema get_engine schema =
     (if CHR ''/'' \<in> set schema then
        (case str_split CHR ''/'' schema of
           [ns, repo] \<Rightarrow> Inr (Repository_init get_engine ns repo)
         | _ \<Rightarrow> Inl (ValueError ''too many values to unpack (expected 2)''))
      else Inr (Repository_init get_engine [] schema))"

definition to_schema :: "Repository \<Rightarrow> string" where
  "to_schema r =
     (if namespace r \<noteq> [] then namespace r @ ''/'' @ repository r else repository r)"

lemma str_split_no_sep: "sep \<notin> set s \<Longrightarrow> str_split sep s = [s]"
  by (induction s) auto

lemma str_split_append:
  "sep \<notin> set a \<Longrightarrow> str_split sep (a @ sep # b) = a # str_split sep b"
  by (induction a) auto

text \<open>
  Claim C9. For every repository whose namespace and repository name contain no \<open>/\<close>,
  \<open>from_schema (to_schema r)\<close> returns (it does not raise) a repository with the same
  namespace and repository name; and a repository with an empty namespace maps to its
  bare repository name, which maps back to the empty namespace and that name.
\<close>

theorem from_schema_to_schema:
  assumes "CHR ''/'' \<notin> set (namespace r)" and "CHR ''/'' \<notin> set (repository r)"
  shows "(\<exists>r'. from_schema get_engine (to_schema r) = Inr r' \<and> Repository_eq r' r) \<and>
         (if namespace r = [] then
            to_schema r = repository r \<and>
            from_schema get_engine (repository r) = Inr (Repository_init get_engine [] (repository r))
          else True)"
  using assms
  by (auto simp: from_schema_def to_schema_def Repository_eq_def Repository_init_def
      str_split_append str_split_no_sep)

theorem from_schema_to_schema_witness:
  "from_schema ''LOCAL''
     (to_schema \<lparr>namespace = ''noaa'', repository = ''climate'',
                 engine = ''LOCAL'', object_engine = ''LOCAL''\<rparr>) =
     Inr \<lparr>namespace = ''noaa'', repository = ''climate'',
          engine = ''LOCAL'', object_engine = ''LOCAL''\<rparr> \<and>
   to_schema \<lparr>namespace = [], repository = ''climate'',
               engine = ''LOCAL'', object_engine = ''LOCAL''\<rparr> = ''climate'' \<and>
   from_schema ''LOCAL'' ''climate'' =
     Inr \<lparr>namespace = [], repository = ''climate'',
          engine = ''LOCAL'', object_engine = ''LOCAL''\<rparr>"
  using from_schema_to_schema [of "\<lparr>namespace = ''noaa'', repository = ''climate'',
                 engine = ''LOCAL'', object_engine = ''LOCAL''\<rparr>" "''LOCAL''"]
    from_schema_to_schema [of "\<lparr>namespace = [], repository = ''climate'',
                 engine = ''LOCAL'', object_engine = ''LOCAL''\<rparr>" "''LOCAL''"]
  by (simp add: Repository_eq_def Repository_init_def to_schema_def from_schema_def)

section \<open>Patching a configuration dictionary\<close>

text \<open>
  \<^verbatim>\<open>patch_config\<close> (config/config.py) copies the configuration with \<^verbatim>\<open>config.copy()\<close>,
  a shallow copy, and \<^verbatim>\<open>_patch_internal\<close> then assigns into the copy and into the nested
  dictionaries that the copy shares with the configuration. Dictionaries are therefore
  objects here: the heap is the list of all dictionary objects, a reference is an index
  into it, and a value is an atom (a string in the configuration files; any type here) or
  a reference to a dictionary. In a Python heap every reference points at an object: it
  is below the length of the heap. A dictionary is an association list with distinct keys
  in insertion order; \<open>dict_set\<close> is the assignment \<^verbatim>\<open>d[key] = value\<close> to it, which
  replaces the value of a key that is present and appends a new key at the end.
\<close>

type_synonym addr = nat

datatype 'a pyval = Atom 'a | Ref addr

type_synonym 'a pydict = "(string \<times> 'a pyval) list"
type_synonym 'a heap = "'a pydict list"

fun dict_set :: "'k \<Rightarrow> 'v \<Rightarrow> ('k \<times> 'v) list \<Rightarrow> ('k \<times> 'v) list" where
  "dict_set k v [] = [(k, v)]"
| "dict_set k v ((k', v') # d) = (if k' = k then (k, v) # d else (k', v') # dict_set k v d)"

text \<open>
  \<^verbatim>\<open>d.copy()\<close> makes a new object with the items of \<open>d\<close>: the values are the same atoms
  and the same references. \<open>setitem\<close> is \<^verbatim>\<open>d[key] = value\<close> on the object at an address.
\<close>

definition dict_copy :: "'a heap \<Rightarrow> addr \<Rightarrow> 'a heap \<times> addr" where
  "dict_copy h a = (h @ [h ! a], length h)"

definition setitem :: "'a heap \<Rightarrow> addr \<Rightarrow> string \<Rightarrow> 'a pyval \<Rightarrow> 'a heap" where
  "setitem h a k v = h[a := dict_set k v (h ! a)]"

text \<open>
  \<^verbatim>\<open>_patch_internal(left, right)\<close>. \<open>patch_items depth n i h left right\<close> is the loop
  \<^verbatim>\<open>for key, value in right.items()\<close> from its round \<open>i\<close> on: \<open>n\<close> is the size that
  \<open>right\<close> had when the loop started, and every round reads \<open>right\<close> as it is in the
  heap at that moment. The iterator raises \<^verbatim>\<open>RuntimeError\<close> when the size has changed,
  and stops after the last item. In \<^verbatim>\<open>left[key] = _patch_internal(left[key], value)\<close> the
  nested call works on the object that \<^verbatim>\<open>left[key]\<close> holds and returns that object, which
  is then assigned. \<open>depth\<close> is the number of nested calls that the recursion limit of
  the interpreter still allows: a call beyond it raises \<^verbatim>\<open>RecursionError\<close>.
\<close>

function patch_items ::
  "nat \<Rightarrow> nat \<Rightarrow> nat \<Rightarrow> 'a heap \<Rightarrow> addr \<Rightarrow> addr \<Rightarrow> 'a heap \<times> (exn + unit)" where
  "patch_items depth n i h left right =
     (if length (h ! right) \<noteq> n then
        (h, Inl (RuntimeError ''dictionary changed size during iteration''))
      else if n \<le> i then (h, Inr ())
      else
        (case h ! right ! i of
           (key, value) \<Rightarrow>
             (case (map_of (h ! left) key, value) of
                (Some (Ref l), Ref r) \<Rightarrow>
                  if depth = 0 then (h, Inl RecursionError)
                  else
                    (case patch_items (depth - 1) (length (h ! r)) 0 h l r of
                       (h', Inl e) \<Rightarrow> (h', Inl e)
                     | (h', Inr _) \<Rightarrow>
                         patch_items depth n (Suc i) (setitem h' left key (Ref l)) left right)
              | _ \<Rightarrow> patch_items depth n (Suc i) (setitem h left key value) left right)))"
  by pat_completeness auto

termination
  by (relation "inv_image (less_than <*lex*> less_than) (\<lambda>(depth, n, i, h, l, r). (depth, n - i))")
     auto

declare patch_items.simps [simp del]

definition patch_internal :: "nat \<Rightarrow> 'a heap \<Rightarrow> addr \<Rightarrow> addr \<Rightarrow> 'a heap \<times> (exn + addr)" where
  "patch_internal depth h left right =
     (if depth = 0 then (h, Inl RecursionError)
      else
        (case patch_items (depth - 1) (length (h ! right)) 0 h left right of
           (h', Inl e) \<Rightarrow> (h', Inl e)
         | (h', Inr _) \<Rightarrow> (h', Inr left)))"

text \<open>\<^verbatim>\<open>patch_config\<close> patches a shallow copy of \<open>config\<close> and returns it.\<close>

definition patch_config :: "nat \<Rightarrow> 'a heap \<Rightarrow> addr \<Rightarrow> addr \<Rightarrow> 'a heap \<times> (exn + addr)" where
  "patch_config limit h config patch =
     (case dict_copy h config of (h1, left) \<Rightarrow> patch_internal limit h1 left patch)"

subsection \<open>Dictionaries read as trees\<close>

text \<open>
  The claim reads a dictionary as a nested table. \<open>'a cfg\<close> is such a table: a leaf or a
  dictionary of tables. \<open>merged\<close> is the rule of the claim as a function on tables: every
  key of the patch gets the patch's value, except that two dictionaries under the same key
  are merged by the same rule; the other keys keep their values.

  \<open>denotes h v t\<close>: in the heap \<open>h\<close> the value \<open>v\<close> reads as the table \<open>t\<close>.
  \<open>addrs h v t\<close> lists the dictionary objects met while \<open>v\<close> is read as \<open>t\<close>, once for
  every path that leads to them, so that no object is shared when the list is distinct.
  \<open>height t\<close> is the number of nested dictionaries of \<open>t\<close>.
\<close>

datatype 'a cfg = Val 'a | Dict "(string \<times> 'a cfg) list"


fun denotes :: "'a heap \<Rightarrow> 'a pyval \<Rightarrow> 'a cfg \<Rightarrow> bool" where
  "denotes h (Atom a) (Val b) = (a = b)"
| "denotes h (Ref a) (Dict kvs) =
     (a < length h \<and> distinct (map fst kvs) \<and> map fst (h ! a) = map fst kvs \<and>
      (\<forall>(k, t) \<in> set kvs. case map_of (h ! a) k of None \<Rightarrow> False | Some v \<Rightarrow> denotes h v t))"
| "denotes h _ _ = False"

fun addrs :: "'a heap \<Rightarrow> 'a pyval \<Rightarrow> 'a cfg \<Rightarrow> addr list" where
  "addrs h (Ref a) (Dict kvs) =
     a # concat (map (\<lambda>(k, t). case map_of (h ! a) k of None \<Rightarrow> [] | Some v \<Rightarrow> addrs h v t) kvs)"
| "addrs h _ _ = []"










lemma dict_set_mem: "(k, v) \<in> set (dict_set k v d)"
  by (induction d) auto







lemma child_absent:
  assumes "denotes h (Ref a) (Dict L)" and "map_of (h ! a) k = None"
  shows "map_of L k = None"
proof -
  from assms(2) have "k \<notin> fst ` set (h ! a)" by (simp add: map_of_eq_None_iff)
  with assms(1) have "k \<notin> fst ` set L" by (metis denotes.simps(2) set_map)
  then show ?thesis by (simp add: map_of_eq_None_iff)
qed








declare denotes.simps [simp del] addrs.simps [simp del]






























text \<open>
  The example of the docstring of \<^verbatim>\<open>patch_config\<close>, and a configuration patched with an
  empty dictionary.
\<close>

definition docstring_heap :: "string heap" where
  "docstring_heap =
     [[(''key_1'', Atom ''value_1''), (''dict_1'', Ref 1)],
      [(''key_1'', Atom ''value_1'')],
      [(''key_1'', Atom ''value_2''), (''dict_1'', Ref 3)],
      [(''key_2'', Atom ''value_2'')]]"







text \<open>
  Even on trees the nested dictionaries of the configuration that was passed in are
  changed, since the copy is shallow: in the example of the docstring the dictionary under
  \<open>dict_1\<close> of the configuration has the key \<open>key_2\<close> after the call. A patch that nests
  deeper than the recursion limit allows ends the call with \<^verbatim>\<open>RecursionError\<close>; and when
  a dictionary of the patch is also reached from the configuration it can grow while it
  is iterated, which ends the call with \<^verbatim>\<open>RuntimeError\<close>.
\<close>

lemma patch_config_changes_nested_config:
  "docstring_heap ! 1 = [(''key_1'', Atom ''value_1'')] \<and>
   fst (patch_config 1000 docstring_heap 0 2) ! 1
     = [(''key_1'', Atom ''value_1''), (''key_2'', Atom ''value_2'')]"
  by code_simp

definition nested_heap :: "string heap" where
  "nested_heap =
     [[(''k'', Ref 1)],
      [(''m'', Ref 2)],
      [(''k'', Ref 3)],
      [(''m'', Ref 4)],
      [(''z'', Atom ''1'')]]"

lemma patch_config_recursion_limit:
  "snd (patch_config 1 docstring_heap 0 2) = Inl RecursionError"
  by code_simp

lemma patch_config_patch_resized:
  "snd (patch_config 1000 nested_heap 0 2)
     = Inl (RuntimeError ''dictionary changed size during iteration'')"
  by code_simp

section \<open>The closest snapshot of a table's object chain\<close>

text \<open>
  \<^verbatim>\<open>get_closest_parent_image_object\<close> (meta\_handler/images.py) reads two things from
  the metadata tables, both parameters here: \<^verbatim>\<open>get_object_for_table\<close> with the
  repository, table and image fixed, a function from the object format to the table's
  object of that format (or \<open>None\<close>), and \<^verbatim>\<open>get_full_object_tree()\<close>, the rows
  \<open>(object_id, parent_id, format)\<close> of the objects table. The formats are the strings
  \<^verbatim>\<open>'SNAP'\<close> (a base snapshot) and \<^verbatim>\<open>'DIFF'\<close> (a patch).

  \<open>object_tree\<close> is the \<^verbatim>\<open>defaultdict(list)\<close> built from the rows: a key with no row
  (the parent \<open>None\<close> too) reads as the empty list.
\<close>

type_synonym object_row = "string \<times> string option \<times> string"

definition object_tree ::
  "object_row list \<Rightarrow> string option \<Rightarrow> (string option \<times> string) list" where
  "object_tree rows key =
     (case key of
        None \<Rightarrow> []
      | Some k \<Rightarrow> map snd (filter (\<lambda>row. fst row = k) rows))"

text \<open>
  The \<^verbatim>\<open>while object_id is not None\<close> loop. One iteration appends the object to the
  path and looks at the first row of the object only (the \<^verbatim>\<open>for\<close> loop returns or
  breaks in its first round). \<^verbatim>\<open>object_tree[parent_id][0]\<close> raises \<^verbatim>\<open>IndexError\<close>
  when the parent has no row. When the object itself has no row the \<^verbatim>\<open>for\<close> loop has
  no round and the \<^verbatim>\<open>while\<close> loop goes on with the same object: the loop may run
  forever, so the function is partial and not returning is the value \<open>None\<close>.
\<close>

partial_function (option) crawl ::
  "object_row list \<Rightarrow> string option \<Rightarrow> string list \<Rightarrow>
   (exn + string option \<times> string list) option"
where
  "crawl rows object_id path =
     (case object_id of
        None \<Rightarrow> Some (Inl (SplitGraphException ''malformed object tree''))
      | Some oid \<Rightarrow>
          (case object_tree rows (Some oid) of
             [] \<Rightarrow> crawl rows (Some oid) (path @ [oid])
           | (parent_id, object_format) # _ \<Rightarrow>
               (case object_tree rows parent_id of
                  [] \<Rightarrow> Some (Inl IndexError)
                | (_, parent_format) # _ \<Rightarrow>
                    if parent_format = ''SNAP'' then Some (Inr (parent_id, path @ [oid]))
                    else crawl rows parent_id (path @ [oid]))))"

declare crawl.simps [code]

definition get_closest_parent_image_object ::
  "(string \<Rightarrow> string option) \<Rightarrow> object_row list \<Rightarrow>
   (exn + string option \<times> string list) option" where
  "get_closest_parent_image_object get_object_for_table get_full_object_tree =
     (case get_object_for_table ''SNAP'' of
        Some object_id \<Rightarrow> Some (Inr (Some object_id, []))
      | None \<Rightarrow> crawl get_full_object_tree (get_object_for_table ''DIFF'') [])"

text \<open>
  Claim C6. Closest-base resolution returns the first snapshot reached along the parent
  pointers with the path of patches, or fails with the malformed-object-tree error when
  no snapshot is reachable. The code does not do the second: for a table whose patch
  \<open>d1\<close> has the parent \<open>d0\<close>, a patch with no parent, no snapshot is reachable, and the
  function raises \<^verbatim>\<open>IndexError\<close> from \<^verbatim>\<open>object_tree[parent_id][0]\<close> instead of the
  \<^verbatim>\<open>SplitGraphException\<close> its last line was written to raise.
\<close>

theorem get_closest_parent_image_object_parentless_diff:
  "get_closest_parent_image_object
     (\<lambda>object_format. if object_format = ''DIFF'' then Some ''d1'' else None)
     [(''d1'', Some ''d0'', ''DIFF''), (''d0'', None, ''DIFF'')]
   = Some (Inl IndexError)"
  by code_simp

text \<open>
  The rest of the function's behaviour. \<open>patch_chain rows ds s\<close>: the objects \<open>ds\<close>
  are linked by the parent of their first rows, each of them other than the first has a
  first row whose format is not \<^verbatim>\<open>'SNAP'\<close>, and the parent of the last is \<open>s\<close>, whose
  first row has the format \<^verbatim>\<open>'SNAP'\<close>.
\<close>

definition first_parent :: "object_row list \<Rightarrow> string \<Rightarrow> string option option" where
  "first_parent rows k =
     (case object_tree rows (Some k) of [] \<Rightarrow> None | (p, _) # _ \<Rightarrow> Some p)"

definition first_format :: "object_row list \<Rightarrow> string \<Rightarrow> string option" where
  "first_format rows k =
     (case object_tree rows (Some k) of [] \<Rightarrow> None | (_, f) # _ \<Rightarrow> Some f)"

fun patch_chain :: "object_row list \<Rightarrow> string list \<Rightarrow> string \<Rightarrow> bool" where
  "patch_chain rows [] s = False"
| "patch_chain rows [d] s =
     (first_parent rows d = Some (Some s) \<and> first_format rows s = Some ''SNAP'')"
| "patch_chain rows (d # d' # ds) s =
     (first_parent rows d = Some (Some d') \<and> first_format rows d' \<noteq> None \<and>
      first_format rows d' \<noteq> Some ''SNAP'' \<and> patch_chain rows (d' # ds) s)"

text \<open>
  On such a chain the function returns the snapshot and the chain as the path; with a
  snapshot of the table itself it returns that snapshot and the empty path; with no
  object for the table at all it raises the malformed-tree error; and from an object
  with no row the loop never returns.
\<close>

lemma crawl_patch_chain:
  "patch_chain rows (d # ds) s \<Longrightarrow>
   crawl rows (Some d) path = Some (Inr (Some s, path @ d # ds))"
proof (induction ds arbitrary: d path)
  case Nil
  then show ?case
    by (subst crawl.simps)
       (auto simp: first_parent_def first_format_def split: list.splits)
next
  case (Cons d' ds)
  from Cons.prems have step: "first_parent rows d = Some (Some d')"
    "first_format rows d' \<noteq> None" "first_format rows d' \<noteq> Some ''SNAP''"
    and rest: "patch_chain rows (d' # ds) s"
    by simp_all
  from Cons.IH [OF rest, of "path @ [d]"] step show ?case
    by (subst crawl.simps)
       (auto simp: first_parent_def first_format_def split: list.splits)
qed

lemma get_closest_parent_image_object_chain:
  "get_object_for_table ''SNAP'' = None \<Longrightarrow> get_object_for_table ''DIFF'' = Some d \<Longrightarrow>
   patch_chain rows (d # ds) s \<Longrightarrow>
   get_closest_parent_image_object get_object_for_table rows = Some (Inr (Some s, d # ds))"
  using crawl_patch_chain [of rows d ds s "[]"]
  by (simp add: get_closest_parent_image_object_def)

lemma get_closest_parent_image_object_snap:
  "get_object_for_table ''SNAP'' = Some s \<Longrightarrow>
   get_closest_parent_image_object get_object_for_table rows = Some (Inr (Some s, []))"
  by (simp add: get_closest_parent_image_object_def)

lemma get_closest_parent_image_object_no_object:
  "get_object_for_table ''SNAP'' = None \<Longrightarrow> get_object_for_table ''DIFF'' = None \<Longrightarrow>
   get_closest_parent_image_object get_object_for_table rows
     = Some (Inl (SplitGraphException ''malformed object tree''))"
  by (simp add: get_closest_parent_image_object_def crawl.simps)

lemma crawl_no_row_never_returns:
  assumes "crawl rows object_id path = Some y"
  shows "\<forall>d. object_id = Some d \<longrightarrow> object_tree rows (Some d) \<noteq> []"
proof (rule crawl.raw_induct
    [where P = "\<lambda>rows object_id path y. \<forall>d. object_id = Some d \<longrightarrow> object_tree rows (Some d) \<noteq> []",
     OF _ assms])
  fix f :: "object_row list \<Rightarrow> string option \<Rightarrow> string list \<Rightarrow>
            (exn + string option \<times> string list) option"
  fix rows object_id path y
  assume IH: "\<And>rows object_id path y. f rows object_id path = Some y \<Longrightarrow>
                \<forall>d. object_id = Some d \<longrightarrow> object_tree rows (Some d) \<noteq> []"
  assume body: "(case object_id of
        None \<Rightarrow> Some (Inl (SplitGraphException ''malformed object tree''))
      | Some oid \<Rightarrow>
          (case object_tree rows (Some oid) of
             [] \<Rightarrow> f rows (Some oid) (path @ [oid])
           | (p, fmt) # _ \<Rightarrow>
               (case object_tree rows p of
                  [] \<Rightarrow> Some (Inl IndexError)
                | (_, pf) # _ \<Rightarrow>
                    if pf = ''SNAP'' then Some (Inr (p, path @ [oid]))
                    else f rows p (path @ [oid])))) = Some y"
  show "\<forall>d. object_id = Some d \<longrightarrow> object_tree rows (Some d) \<noteq> []"
  proof (intro allI impI notI)
    fix d
    assume d: "object_id = Some d" "object_tree rows (Some d) = []"
    with body have "f rows (Some d) (path @ [d]) = Some y" by simp
    from IH [OF this] d(2) show False by simp
  qed
qed

lemma crawl_no_row_diverges:
  "object_tree rows (Some d) = [] \<Longrightarrow> crawl rows (Some d) path = None"
  using crawl_no_row_never_returns [of rows "Some d" path]
  by (cases "crawl rows (Some d) path") auto

section \<open>The engines, the metadata and the operations outside the modelled files\<close>

text \<open>
  \<^verbatim>\<open>repository.py\<close> drives an image manager, an object manager and two engines whose code
  is outside the modelled files. The model keeps what the claims read:
  \<^item> a table descriptor (\<^verbatim>\<open>Table\<close>) and an image record (\<^verbatim>\<open>Image\<close>);
  \<^item> per engine, the rows of the \<^verbatim>\<open>images\<close> and \<^verbatim>\<open>tags\<close> tables, keyed by namespace,
    repository and image hash or tag, and a \<open>store\<close> of any type for everything else
    the engine holds (table descriptors, object metadata and locations, payloads,
    physical tables, the audit log);
  \<^item> per engine, the state as of the last commit and the state of the open transaction.
  A table schema is the ordered list of columns: name, type and primary-key membership.
\<close>

type_synonym table_schema = "(string \<times> string \<times> bool) list"

record Table =
  table_name :: string
  table_schema :: table_schema
  objects :: "string list"

record Image =
  image_hash :: string
  parent_id :: "string option"
  created :: nat
  comment :: "string option"
  provenance_type :: "string option"
  provenance_data :: "string option"

text \<open>
  A row of the \<^verbatim>\<open>images\<close> table without its key: parent, creation time, comment,
  provenance type and provenance data.
\<close>

type_synonym image_row = "string option \<times> nat \<times> string option \<times> string option \<times> string option"

record 'o db =
  images :: "(string \<times> string \<times> string) \<rightharpoonup> image_row"
  tags :: "(string \<times> string \<times> string) \<rightharpoonup> string"
  store :: 'o

record 'o txn =
  committed :: "'o db"
  current :: "'o db"

text \<open>
  The world maps an engine's name to its transaction state. A program takes the world and
  returns the new world with an exception or a value; \<open>seq\<close> stops at the first
  exception, as Python does. An operation (\<open>op\<close>) of the engines or the object manager
  sees and changes only the stores of the open transactions.
\<close>

type_synonym 'o world = "string \<Rightarrow> 'o txn"
type_synonym ('o, 'a) prog = "'o world \<Rightarrow> 'o world \<times> (exn + 'a)"
type_synonym ('o, 'a) op = "(string \<Rightarrow> 'o) \<Rightarrow> (string \<Rightarrow> 'o) \<times> (exn + 'a)"

definition ret :: "'a \<Rightarrow> ('o, 'a) prog" where
  "ret x w = (w, Inr x)"

definition raise :: "exn \<Rightarrow> ('o, 'a) prog" where
  "raise e w = (w, Inl e)"

definition seq :: "('o, 'a) prog \<Rightarrow> ('a \<Rightarrow> ('o, 'b) prog) \<Rightarrow> ('o, 'b) prog" where
  "seq m f w = (case m w of (w', Inl e) \<Rightarrow> (w', Inl e) | (w', Inr x) \<Rightarrow> f x w')"

fun for_each :: "'a list \<Rightarrow> ('a \<Rightarrow> ('o, unit) prog) \<Rightarrow> ('o, unit) prog" where
  "for_each [] f = ret ()"
| "for_each (x # xs) f = seq (f x) (\<lambda>_. for_each xs f)"

definition read :: "('o world \<Rightarrow> exn + 'a) \<Rightarrow> ('o, 'a) prog" where
  "read f w = (w, f w)"

definition modify :: "('o world \<Rightarrow> 'o world) \<Rightarrow> ('o, unit) prog" where
  "modify f w = (f w, Inr ())"

definition stores :: "'o world \<Rightarrow> string \<Rightarrow> 'o" where
  "stores w e = store (current (w e))"

definition run_op :: "('o, 'a) op \<Rightarrow> ('o, 'a) prog" where
  "run_op f w =
     (case f (stores w) of
        (s', r) \<Rightarrow> (\<lambda>e. (w e)\<lparr>current := (current (w e))\<lparr>store := s' e\<rparr>\<rparr>, r))"

text \<open>
  Modelled from the spec: the engine's \<^verbatim>\<open>commit()\<close> and \<^verbatim>\<open>rollback()\<close> are outside
  the modelled files. ``Commit both ends'' makes the open transaction the committed
  state; ``roll back'' discards the open transaction.
\<close>

definition engine_commit :: "string \<Rightarrow> 'o world \<Rightarrow> 'o world" where
  "engine_commit e w = w(e := (w e)\<lparr>committed := current (w e)\<rparr>)"

definition engine_rollback :: "string \<Rightarrow> 'o world \<Rightarrow> 'o world" where
  "engine_rollback e w = w(e := (w e)\<lparr>current := committed (w e)\<rparr>)"

text \<open>
  \<^verbatim>\<open>Repository.rollback_engines\<close> and \<^verbatim>\<open>Repository.commit_engines\<close>: the metadata
  engine, then the object engine when it is another engine.
\<close>

definition rollback_engines :: "Repository \<Rightarrow> 'o world \<Rightarrow> 'o world" where
  "rollback_engines self w =
     (let w1 = engine_rollback (engine self) w
      in if engine self \<noteq> object_engine self then engine_rollback (object_engine self) w1 else w1)"

definition commit_engines :: "Repository \<Rightarrow> 'o world \<Rightarrow> 'o world" where
  "commit_engines self w =
     (let w1 = engine_commit (engine self) w
      in if engine self \<noteq> object_engine self then engine_commit (object_engine self) w1 else w1)"

subsection \<open>The image manager\<close>

text \<open>
  Modelled from the spec: \<^verbatim>\<open>ImageManager\<close>, \<^verbatim>\<open>Image.tag\<close> and \<^verbatim>\<open>set_head\<close> are
  outside the modelled files. \<open>by_hash\<close> reads an image by its hash and raises when there
  is none; \<open>by_tag\<close> follows a tag; \<open>images_add\<close> inserts a row of the \<^verbatim>\<open>images\<close>
  table, whose primary key refuses a second row with the same hash, and takes the
  clock's time when no creation time is given; \<open>set_tag\<close> points a tag at an image, or
  deletes the tag when the image is \<open>None\<close> (``leave \<^verbatim>\<open>HEAD\<close> unset''), and
  \<open>set_head\<close> is \<open>set_tag\<close> for the tag \<^verbatim>\<open>HEAD\<close>. All of them work on the open
  transaction of the repository's metadata engine.
\<close>

definition update_current :: "string \<Rightarrow> ('o db \<Rightarrow> 'o db) \<Rightarrow> 'o world \<Rightarrow> 'o world" where
  "update_current e f w = w(e := (w e)\<lparr>current := f (current (w e))\<rparr>)"

definition image_of_row :: "string \<Rightarrow> image_row \<Rightarrow> Image" where
  "image_of_row h row =
     (case row of (p, c, m, pt, pd) \<Rightarrow>
        \<lparr>image_hash = h, parent_id = p, created = c, comment = m,
         provenance_type = pt, provenance_data = pd\<rparr>)"

definition by_hash :: "Repository \<Rightarrow> string \<Rightarrow> ('o, Image) prog" where
  "by_hash self h =
     read (\<lambda>w. case images (current (w (engine self))) (namespace self, repository self, h) of
                 None \<Rightarrow> Inl (ImageNotFoundError h)
               | Some row \<Rightarrow> Inr (image_of_row h row))"

definition by_tag :: "Repository \<Rightarrow> string \<Rightarrow> bool \<Rightarrow> ('o, Image option) prog" where
  "by_tag self tag raise_on_none =
     seq (read (\<lambda>w. Inr (tags (current (w (engine self))) (namespace self, repository self, tag))))
       (\<lambda>found. case found of
                  None \<Rightarrow> if raise_on_none then raise (ImageNotFoundError tag) else ret None
                | Some h \<Rightarrow> seq (by_hash self h) (\<lambda>img. ret (Some img)))"

definition images_add ::
  "nat \<Rightarrow> Repository \<Rightarrow> string option \<Rightarrow> string \<Rightarrow> nat option \<Rightarrow> string option \<Rightarrow>
   string option \<Rightarrow> string option \<Rightarrow> ('o, unit) prog" where
  "images_add now self parent h created' comment' prov_type prov_data =
     seq (read (\<lambda>w. Inr (images (current (w (engine self))) (namespace self, repository self, h))))
       (\<lambda>found. case found of
                  Some _ \<Rightarrow> raise (Raised ''IntegrityError'')
                | None \<Rightarrow>
                    modify (update_current (engine self)
                      (\<lambda>d. d\<lparr>images := (images d)((namespace self, repository self, h) \<mapsto>
                          (parent, (case created' of None \<Rightarrow> now | Some c \<Rightarrow> c),
                           comment', prov_type, prov_data))\<rparr>)))"

definition set_tag :: "Repository \<Rightarrow> string option \<Rightarrow> string \<Rightarrow> ('o, unit) prog" where
  "set_tag self h tag =
     modify (update_current (engine self)
       (\<lambda>d. d\<lparr>tags := (tags d)((namespace self, repository self, tag) := h)\<rparr>))"

definition set_head :: "Repository \<Rightarrow> string option \<Rightarrow> ('o, unit) prog" where
  "set_head self h = set_tag self h ''HEAD''"

definition Image_tag :: "Repository \<Rightarrow> Image \<Rightarrow> string \<Rightarrow> ('o, unit) prog" where
  "Image_tag self img tag = set_tag self (Some (image_hash img)) tag"

text \<open>
  \<^verbatim>\<open>Repository.set_tags\<close>: the loop over \<^verbatim>\<open>tags.items()\<close>; the \<^verbatim>\<open>assert\<close> raises
  \<^verbatim>\<open>AssertionError\<close>.
\<close>

definition set_tags :: "Repository \<Rightarrow> (string \<times> string option) list \<Rightarrow> ('o, unit) prog" where
  "set_tags self tags' =
     for_each tags' (\<lambda>(tag, image_id).
       if tag \<noteq> ''HEAD'' then
         (case image_id of
            None \<Rightarrow> raise AssertionError
          | Some h \<Rightarrow> seq (by_hash self h) (\<lambda>img. Image_tag self img tag))
       else ret ())"

subsection \<open>Operations that are parameters\<close>

text \<open>
  Everything else that \<^verbatim>\<open>repository.py\<close> calls is a field of the environment: the
  clock, the random sources, the constant \<^verbatim>\<open>SPLITGRAPH_META_SCHEMA\<close>, the engine's
  reads (functions of one engine's store), the gathering of the metadata to synchronize
  (a function of the open transactions), the operations of the engines and of the object
  manager (\<open>op\<close>), and \<^verbatim>\<open>slow_diff\<close> and \<^verbatim>\<open>_import_tables\<close>, which are programs on the
  world. \<^verbatim>\<open>get_table\<close> of the environment gives \<open>None\<close> where \<^verbatim>\<open>Image.get_table\<close>
  raises \<^verbatim>\<open>TableNotFoundError\<close>. The theorems hold for every environment.
\<close>

type_synonym object_meta = "string \<times> string \<times> string list \<times> string"
type_synonym object_location = "string \<times> string \<times> string"
type_synonym table_meta = "string \<times> string \<times> table_schema \<times> string list"
type_synonym sync_metadata =
  "Image list \<times> table_meta list \<times> object_location list \<times> (string \<times> object_meta) list \<times>
   (string \<times> string option) list"
type_synonym diff_rows = "(int \<times> int \<times> int) + (bool \<times> string list) list"

record 'o env =
  now :: nat
  getrandbits_256 :: "256 word"
  get_random_object_id :: string
  SPLITGRAPH_META_SCHEMA :: string
  table_exists :: "'o \<Rightarrow> string \<Rightarrow> string \<Rightarrow> bool"
  get_all_tables :: "'o \<Rightarrow> string \<Rightarrow> string list"
  get_changed_tables :: "'o \<Rightarrow> string \<Rightarrow> string list"
  get_full_table_schema :: "'o \<Rightarrow> string \<Rightarrow> string \<Rightarrow> table_schema"
  get_pending_changes :: "'o \<Rightarrow> string \<Rightarrow> string \<Rightarrow> (int \<times> int) list"
  get_table :: "'o \<Rightarrow> Repository \<Rightarrow> string \<Rightarrow> string \<Rightarrow> Table option"
  get_tables :: "'o \<Rightarrow> Repository \<Rightarrow> string \<Rightarrow> string list"
  images_getitem :: "(string \<Rightarrow> 'o db) \<Rightarrow> Repository \<Rightarrow> string \<Rightarrow> exn + Image"
  aggregate_changes :: "(int \<times> int) list \<Rightarrow> int \<times> int \<times> int"
  gather_sync_metadata :: "(string \<Rightarrow> 'o db) \<Rightarrow> Repository \<Rightarrow> Repository \<Rightarrow> exn + sync_metadata"
  manage_audit_triggers :: "string \<Rightarrow> string \<Rightarrow> ('o, unit) op"
  discard_pending_changes :: "string \<Rightarrow> string \<Rightarrow> ('o, unit) op"
  delete_table :: "string \<Rightarrow> string \<Rightarrow> string \<Rightarrow> ('o, unit) op"
  materialize :: "Repository \<Rightarrow> Table \<Rightarrow> string \<Rightarrow> string \<Rightarrow> ('o, unit) op"
  record_table_as_base ::
    "Repository \<Rightarrow> string \<Rightarrow> string \<Rightarrow> nat option \<Rightarrow> string \<Rightarrow> string option \<Rightarrow>
     ('o, string list) op"
  record_table_as_patch ::
    "Repository \<Rightarrow> Table \<Rightarrow> string \<Rightarrow> string \<Rightarrow> bool \<Rightarrow> string option \<Rightarrow> ('o, unit) op"
  register_tables :: "Repository \<Rightarrow> table_meta list \<Rightarrow> ('o, unit) op"
  register_objects :: "Repository \<Rightarrow> object_meta list \<Rightarrow> string option \<Rightarrow> ('o, unit) op"
  register_object_locations :: "Repository \<Rightarrow> object_location list \<Rightarrow> ('o, unit) op"
  download_objects ::
    "Repository \<Rightarrow> Repository \<Rightarrow> string list \<Rightarrow> object_location list \<Rightarrow> ('o, unit) op"
  upload_objects ::
    "Repository \<Rightarrow> Repository \<Rightarrow> string list \<Rightarrow> string \<Rightarrow> (string \<times> string) list \<Rightarrow>
     ('o, object_location list) op"
  slow_diff ::
    "Repository \<Rightarrow> string \<Rightarrow> string option \<Rightarrow> string option \<Rightarrow> bool \<Rightarrow> ('o, diff_rows) prog"
  import_tables_internal ::
    "Repository \<Rightarrow> Image option \<Rightarrow> string list \<Rightarrow> Repository \<Rightarrow> string \<Rightarrow> string list \<Rightarrow>
     bool \<Rightarrow> bool list \<Rightarrow> bool \<Rightarrow> string option \<Rightarrow> string option \<Rightarrow> ('o, string) prog"

subsection \<open>Transient materialization\<close>

text \<open>
  \<^verbatim>\<open>try: ... finally: ...\<close>: the final block runs after the body whatever the body's
  outcome; the body's outcome stands unless the final block itself raises.
\<close>

definition try_finally :: "('o, 'a) prog \<Rightarrow> ('o, unit) prog \<Rightarrow> ('o, 'a) prog" where
  "try_finally m fin w =
     (case m w of
        (w1, r) \<Rightarrow> (case fin w1 of (w2, Inl e) \<Rightarrow> (w2, Inl e) | (w2, Inr _) \<Rightarrow> (w2, r)))"

definition Image_get_table :: "'o env \<Rightarrow> Repository \<Rightarrow> Image \<Rightarrow> string \<Rightarrow> ('o, Table) prog" where
  "Image_get_table env self img table =
     read (\<lambda>w. case get_table env (stores w (engine self)) self (image_hash img) table of
                 None \<Rightarrow> Inl (TableNotFoundError table)
               | Some t \<Rightarrow> Inr t)"

text \<open>
  \<^verbatim>\<open>Repository.materialized_table\<close> is a context manager: \<open>body\<close> is the block under
  \<^verbatim>\<open>with\<close>, run with the pair the generator yields; an exception of the block is raised
  at the \<^verbatim>\<open>yield\<close>.
\<close>

definition materialized_table ::
  "'o env \<Rightarrow> Repository \<Rightarrow> string \<Rightarrow> string option \<Rightarrow> (string \<times> string \<Rightarrow> ('o, 'a) prog) \<Rightarrow>
   ('o, 'a) prog" where
  "materialized_table env self table_name' image_hash' body =
     (case image_hash' of
        None \<Rightarrow> body (to_schema self, table_name')
      | Some h \<Rightarrow>
          seq (by_hash self h)
            (\<lambda>img. seq (Image_get_table env self img table_name')
            (\<lambda>table. let new_id = get_random_object_id env in
               seq (run_op (materialize env self table new_id (SPLITGRAPH_META_SCHEMA env)))
            (\<lambda>_. try_finally (body (SPLITGRAPH_META_SCHEMA env, new_id))
                    (seq (run_op (delete_table env (object_engine self)
                                    (SPLITGRAPH_META_SCHEMA env) new_id))
                       (\<lambda>_. modify (engine_commit (object_engine self))))))))"

subsection \<open>Commit\<close>

text \<open>\<^verbatim>\<open>Repository.head\<close> and \<^verbatim>\<open>Repository.head_strict\<close>.\<close>

definition head :: "Repository \<Rightarrow> ('o, Image option) prog" where
  "head self = by_tag self ''HEAD'' False"

definition head_strict :: "Repository \<Rightarrow> ('o, Image) prog" where
  "head_strict self =
     seq (by_tag self ''HEAD'' True)
       (\<lambda>found. case found of None \<Rightarrow> raise (ImageNotFoundError ''HEAD'') | Some img \<Rightarrow> ret img)"

text \<open>
  \<^verbatim>\<open>"{:064x}".format(n)\<close>: the lower-case hexadecimal digits of \<open>n\<close>, padded with zeros
  on the left to 64 characters. \<^verbatim>\<open>getrandbits(256)\<close> is a 256-bit word.
\<close>

definition hex_digit :: "nat \<Rightarrow> char" where
  "hex_digit d = ''0123456789abcdef'' ! d"

fun hex :: "nat \<Rightarrow> string" where
  "hex n = (if n < 16 then [hex_digit n] else hex (n div 16) @ [hex_digit (n mod 16)])"

declare hex.simps [simp del]

definition format_064x :: "nat \<Rightarrow> string" where
  "format_064x n = replicate (64 - length (hex n)) CHR ''0'' @ hex n"

text \<open>
  One round of the loop of \<^verbatim>\<open>Repository._commit\<close> over the tables of the working
  schema. \<open>as_base\<close> is the call of \<^verbatim>\<open>record_table_as_base\<close> followed by
  \<^verbatim>\<open>continue\<close>; the \<^verbatim>\<open>or\<close> chain is evaluated left to right and stops at its first
  true operand.
\<close>

definition commit_table ::
  "'o env \<Rightarrow> Repository \<Rightarrow> Image option \<Rightarrow> string \<Rightarrow> bool \<Rightarrow> nat option \<Rightarrow> bool \<Rightarrow> string \<Rightarrow>
   (string \<rightharpoonup> string) \<Rightarrow> string list \<Rightarrow> string \<Rightarrow> ('o, unit) prog" where
  "commit_table env self head' image_hash' snap_only chunk_size split_changeset schema
     extra_indexes changed_tables table =
     (let as_base = seq (run_op (record_table_as_base env self table image_hash' chunk_size
                                   schema (extra_indexes table)))
                      (\<lambda>_. ret ())
      in seq (case head' of
                None \<Rightarrow> ret None
              | Some h \<Rightarrow>
                  read (\<lambda>w. Inr (get_table env (stores w (engine self)) self (image_hash h) table)))
           (\<lambda>table_info.
              case table_info of
                None \<Rightarrow> as_base
              | Some info \<Rightarrow>
                  if snap_only then as_base
                  else
                    seq (read (\<lambda>w. Inr (get_full_table_schema env (stores w (object_engine self))
                                          schema table)))
                      (\<lambda>full_table_schema.
                         if table_schema info \<noteq> full_table_schema then as_base
                         else if table \<in> set changed_tables then
                           run_op (record_table_as_patch env self info schema image_hash'
                                     split_changeset (extra_indexes table))
                         else
                           run_op (register_tables env self
                                     [(image_hash', table, table_schema info, objects info)]))))"

text \<open>
  \<^verbatim>\<open>Repository._commit\<close> (\<open>commit_internal\<close>): \<^verbatim>\<open>schema or self.to_schema()\<close> and
  \<^verbatim>\<open>extra_indexes or {}\<close>, the changed tables read once, the loop, and the discarding of
  the pending changes.
\<close>

definition commit_internal ::
  "'o env \<Rightarrow> Repository \<Rightarrow> Image option \<Rightarrow> string \<Rightarrow> bool \<Rightarrow> nat option \<Rightarrow> bool \<Rightarrow>
   string option \<Rightarrow> (string \<rightharpoonup> string) option \<Rightarrow> ('o, unit) prog" where
  "commit_internal env self head' image_hash' snap_only chunk_size split_changeset schema
     extra_indexes =
     (let schema' = (case schema of None \<Rightarrow> to_schema self
                     | Some s \<Rightarrow> if s = [] then to_schema self else s);
          extra_indexes' = (case extra_indexes of None \<Rightarrow> Map.empty | Some d \<Rightarrow> d)
      in seq (read (\<lambda>w. Inr (get_changed_tables env (stores w (object_engine self)) schema')))
           (\<lambda>changed_tables.
              seq (read (\<lambda>w. Inr (get_all_tables env (stores w (object_engine self)) schema')))
           (\<lambda>all_tables.
              seq (for_each all_tables
                     (commit_table env self head' image_hash' snap_only chunk_size split_changeset
                        schema' extra_indexes' changed_tables))
           (\<lambda>_. run_op (discard_pending_changes env (object_engine self) schema')))))"

text \<open>\<^verbatim>\<open>Repository.commit\<close>.\<close>

definition commit ::
  "'o env \<Rightarrow> Repository \<Rightarrow> string option \<Rightarrow> string option \<Rightarrow> bool \<Rightarrow> nat option \<Rightarrow> bool \<Rightarrow>
   (string \<rightharpoonup> string) option \<Rightarrow> ('o, Image) prog" where
  "commit env self image_hash' comment' snap_only chunk_size split_changeset extra_indexes =
     seq (modify (engine_commit (object_engine self)))
       (\<lambda>_. seq (run_op (manage_audit_triggers env (engine self) (object_engine self)))
       (\<lambda>_. seq (head self)
       (\<lambda>head'.
          let image_hash'' = (case image_hash' of
                                None \<Rightarrow> format_064x (unat (getrandbits_256 env))
                              | Some h \<Rightarrow> h)
          in seq (images_add (now env) self (map_option image_hash head') image_hash'' None
                    comment' None None)
       (\<lambda>_. seq (commit_internal env self head' image_hash'' snap_only chunk_size
                    split_changeset None extra_indexes)
       (\<lambda>_. seq (set_head self (Some image_hash''))
       (\<lambda>_. seq (run_op (manage_audit_triggers env (engine self) (object_engine self)))
       (\<lambda>_. seq (modify (engine_commit (object_engine self)))
       (\<lambda>_. seq (modify (engine_commit (engine self)))
       (\<lambda>_. by_hash self image_hash'')))))))))"

subsection \<open>Diff\<close>

text \<open>
  An image argument of \<^verbatim>\<open>diff\<close> is a hash or an image object; the second may be
  \<open>None\<close>, the staging area. The result is a bare boolean, the aggregate counts or the
  list of changed rows.
\<close>

datatype image_ref = Hash string | Img Image

datatype diff_result = Bare bool | Counts "int \<times> int \<times> int" | Rows "(bool \<times> string list) list"

text \<open>
  \<^verbatim>\<open>table_exists_at\<close>, \<^verbatim>\<open>_hash\<close> (\<open>hash_of\<close>) and \<^verbatim>\<open>Repository.diff\<close>;
  \<open>resolve_image\<close> is the statement \<^verbatim>\<open>if isinstance(image, str): image = self.images.by_hash(image)\<close>.
\<close>

definition table_exists_at :: "'o env \<Rightarrow> Repository \<Rightarrow> string \<Rightarrow> Image option \<Rightarrow> ('o, bool) prog" where
  "table_exists_at env repo table_name' img =
     (case img of
        None \<Rightarrow>
          read (\<lambda>w. Inr (table_exists env (stores w (object_engine repo)) (to_schema repo)
                           table_name'))
      | Some i \<Rightarrow>
          read (\<lambda>w. case get_table env (stores w (engine repo)) repo (image_hash i) table_name' of
                      Some _ \<Rightarrow> Inr True
                    | None \<Rightarrow> Inr False))"

definition hash_of :: "Image option \<Rightarrow> string option" where
  "hash_of img = (case img of None \<Rightarrow> None | Some i \<Rightarrow> Some (image_hash i))"

definition resolve_image :: "Repository \<Rightarrow> image_ref \<Rightarrow> ('o, Image) prog" where
  "resolve_image self ref = (case ref of Hash h \<Rightarrow> by_hash self h | Img i \<Rightarrow> ret i)"

definition diff ::
  "'o env \<Rightarrow> Repository \<Rightarrow> string \<Rightarrow> image_ref \<Rightarrow> image_ref option \<Rightarrow> bool \<Rightarrow>
   ('o, diff_result) prog" where
  "diff env self table_name' image_1 image_2 aggregate =
     seq (resolve_image self image_1)
       (\<lambda>image_1'.
     seq (case image_2 of
            None \<Rightarrow> ret None
          | Some ref \<Rightarrow> seq (resolve_image self ref) (\<lambda>i. ret (Some i)))
       (\<lambda>image_2'.
     seq (table_exists_at env self table_name' (Some image_1'))
       (\<lambda>exists_1.
          if \<not> exists_1 then ret (Bare True)
          else
     seq (table_exists_at env self table_name' image_2')
       (\<lambda>exists_2.
          if \<not> exists_2 then ret (Bare False)
          else
     seq (head self)
       (\<lambda>head'.
          if Some image_1' = head' \<and> image_2' = None \<and> aggregate then
            read (\<lambda>w. Inr (Counts (aggregate_changes env
                    (get_pending_changes env (stores w (object_engine self)) (to_schema self)
                       table_name'))))
          else
     seq (case image_2' of
            None \<Rightarrow> ret False
          | Some i2 \<Rightarrow>
              seq (Image_get_table env self image_1' table_name')
                (\<lambda>t1. seq (Image_get_table env self i2 table_name')
                (\<lambda>t2. ret (set (objects t1) = set (objects t2)))))
       (\<lambda>same.
          if same then ret (if \<not> aggregate then Rows [] else Counts (0, 0, 0))
          else
     seq (slow_diff env self table_name' (hash_of (Some image_1')) (hash_of image_2') aggregate)
       (\<lambda>d. ret (case d of Inl c \<Rightarrow> Counts c | Inr rows \<Rightarrow> Rows rows))))))))"

subsection \<open>Importing tables\<close>

text \<open>
  \<^verbatim>\<open>Repository.import_tables\<close> in three parts. \<open>import_tables_validate\<close> is the code
  up to the check of the lengths: it resolves the source image and returns the image and
  the effective lists \<open>tables\<close>, \<open>source_tables\<close> and \<open>table_queries\<close>.
  \<open>import_tables_existing\<close> is the \<^verbatim>\<open>if parent_hash:\<close> statement: it returns the parent
  hash and the existing tables. \<open>import_tables\<close> checks the clash and calls
  \<^verbatim>\<open>_import_tables\<close>. A string argument of \<^verbatim>\<open>if\<close> or \<^verbatim>\<open>or\<close> counts as absent when it
  is \<open>None\<close> or empty. The decorator \<^verbatim>\<open>manage_audit\<close> around the function is outside the
  modelled files.
\<close>

definition import_tables_validate ::
  "'o env \<Rightarrow> string list \<Rightarrow> Repository \<Rightarrow> string list \<Rightarrow> string option \<Rightarrow> bool \<Rightarrow>
   bool list option \<Rightarrow> ('o, Image option \<times> string list \<times> string list \<times> bool list) prog" where
  "import_tables_validate env tables source_repository source_tables image_hash' foreign_tables
     table_queries =
     (let table_queries1 = (case table_queries of None \<Rightarrow> [] | Some q \<Rightarrow> q)
      in seq (if \<not> foreign_tables then
                (case image_hash' of
                   None \<Rightarrow> seq (head_strict source_repository) (\<lambda>i. ret (Some i))
                 | Some h \<Rightarrow>
                     if h = [] then seq (head_strict source_repository) (\<lambda>i. ret (Some i))
                     else seq (by_hash source_repository h) (\<lambda>i. ret (Some i)))
              else ret None)
           (\<lambda>img.
      seq (if source_tables = [] then
             (case img of
                None \<Rightarrow> raise AssertionError
              | Some i \<Rightarrow>
                  if \<not> foreign_tables then
                    read (\<lambda>w. Inr (get_tables env (stores w (engine source_repository))
                                     source_repository (image_hash i)))
                  else
                    read (\<lambda>w. Inr (get_all_tables env (stores w (object_engine source_repository))
                                     (to_schema source_repository))))
           else ret source_tables)
           (\<lambda>source_tables1.
      seq (if tables = [] then
             (if table_queries1 \<noteq> [] then
                raise (ValueError ''target_tables has to be defined if table_queries is True!'')
              else ret source_tables1)
           else ret tables)
           (\<lambda>tables1.
              let table_queries2 = (if table_queries1 = [] then replicate (length tables1) False
                                    else table_queries1)
              in if length tables1 \<noteq> length source_tables1
                    \<or> length source_tables1 \<noteq> length table_queries2 then
                   raise (ValueError
                     ''tables, source_tables and table_queries have mismatching lengths!'')
                 else ret (img, tables1, source_tables1, table_queries2)))))"

definition import_tables_existing ::
  "'o env \<Rightarrow> Repository \<Rightarrow> string option \<Rightarrow> ('o, string option \<times> string list) prog" where
  "import_tables_existing env self parent_hash =
     (if parent_hash \<noteq> None \<and> parent_hash \<noteq> Some [] then
        seq (read (\<lambda>w. images_getitem env (\<lambda>e. current (w e)) self (the parent_hash)))
          (\<lambda>parent. read (\<lambda>w. Inr (parent_hash,
                              get_tables env (stores w (engine self)) self (image_hash parent))))
      else
        seq (head self)
          (\<lambda>head1. seq (head self)
          (\<lambda>head2. read (\<lambda>w. Inr (if head1 \<noteq> None then hash_of head2 else None,
                                  get_all_tables env (stores w (object_engine self))
                                    (to_schema self))))))"

definition import_tables ::
  "'o env \<Rightarrow> Repository \<Rightarrow> string list \<Rightarrow> Repository \<Rightarrow> string list \<Rightarrow> string option \<Rightarrow> bool \<Rightarrow>
   bool \<Rightarrow> string option \<Rightarrow> bool list option \<Rightarrow> string option \<Rightarrow> string option \<Rightarrow>
   ('o, string) prog" where
  "import_tables env self tables source_repository source_tables image_hash' foreign_tables
     do_checkout target_hash table_queries parent_hash wrapper =
     (let target_hash' = (case target_hash of
                            None \<Rightarrow> format_064x (unat (getrandbits_256 env))
                          | Some h \<Rightarrow> if h = [] then format_064x (unat (getrandbits_256 env))
                                      else h)
      in seq (import_tables_validate env tables source_repository source_tables image_hash'
                foreign_tables table_queries)
           (\<lambda>(img, tables', source_tables', table_queries').
      seq (import_tables_existing env self parent_hash)
           (\<lambda>(parent_hash', existing_tables).
              let clashing = filter (\<lambda>t. t \<in> set existing_tables) tables'
              in if clashing \<noteq> [] then
                   raise (ValueError_tables_exist clashing (to_schema self))
                 else
                   import_tables_internal env self img tables' source_repository target_hash'
                     source_tables' do_checkout table_queries' foreign_tables parent_hash'
                     wrapper)))"

subsection \<open>Synchronizing two repositories\<close>

text \<open>
  \<^verbatim>\<open>_sync\<close> (\<open>sync\<close>). \<open>sync_apply\<close> is the code of the \<^verbatim>\<open>try\<close> block after the
  \<^verbatim>\<open>return\<close> for an empty list of new images; \<open>sync_try\<close> is the \<^verbatim>\<open>try\<close> block, whose
  outcome says whether it left through that \<^verbatim>\<open>return\<close>; \<open>sync\<close> adds the
  \<^verbatim>\<open>except Exception\<close> clause and the commits after the block. The clause catches
  the exceptions of class \<^verbatim>\<open>Exception\<close> only: any other leaves \<open>sync\<close> as it is,
  with no rollback.
\<close>

datatype sync_outcome = Nothing_to_do | Synced

definition sync_apply ::
  "'o env \<Rightarrow> Repository \<Rightarrow> Repository \<Rightarrow> bool \<Rightarrow> bool option \<Rightarrow> string \<Rightarrow>
   (string \<times> string) list \<Rightarrow> sync_metadata \<Rightarrow> ('o, unit) prog" where
  "sync_apply env target source download download_all handler handler_options meta =
     (case meta of (new_images, table_meta, object_locations, object_meta, tags') \<Rightarrow>
        seq (for_each new_images (\<lambda>img.
               images_add (now env) target (parent_id img) (image_hash img)
                 (Some (created img)) (comment img) (provenance_type img)
                 (provenance_data img)))
          (\<lambda>_. seq
             (if download then
                seq (run_op (register_objects env target (map snd object_meta) None))
                  (\<lambda>_. seq (run_op (register_object_locations env target object_locations))
                  (\<lambda>_. seq (if download_all = Some True then
                              run_op (download_objects env target source (map fst object_meta)
                                        object_locations)
                            else ret ())
                  (\<lambda>_. set_head target None)))
              else
                seq (run_op (upload_objects env source target (map fst object_meta) handler
                               handler_options))
                  (\<lambda>new_uploads.
                     seq (run_op (register_objects env target (map snd object_meta)
                                    (Some (namespace target))))
                  (\<lambda>_. seq (run_op (register_object_locations env target
                                       (object_locations @ new_uploads)))
                  (\<lambda>_. run_op (register_object_locations env source new_uploads)))))
             (\<lambda>_. seq (run_op (register_tables env target table_meta))
             (\<lambda>_. set_tags target tags'))))"

definition sync_try ::
  "'o env \<Rightarrow> Repository \<Rightarrow> Repository \<Rightarrow> bool \<Rightarrow> bool option \<Rightarrow> string \<Rightarrow>
   (string \<times> string) list \<Rightarrow> ('o, sync_outcome) prog" where
  "sync_try env target source download download_all handler handler_options =
     seq (read (\<lambda>w. gather_sync_metadata env (\<lambda>e. current (w e)) target source))
       (\<lambda>meta.
          if fst meta = [] then ret Nothing_to_do
          else seq (sync_apply env target source download download_all handler handler_options
                      meta)
                 (\<lambda>_. ret Synced))"

definition sync ::
  "'o env \<Rightarrow> Repository \<Rightarrow> Repository \<Rightarrow> bool \<Rightarrow> bool option \<Rightarrow> string \<Rightarrow>
   (string \<times> string) list option \<Rightarrow> ('o, unit) prog" where
  "sync env target source download download_all handler handler_options w =
     (let handler_options' = (case handler_options of None \<Rightarrow> [] | Some d \<Rightarrow> d)
      in case sync_try env target source download download_all handler handler_options' w of
           (w', Inl e) \<Rightarrow>
             if is_Exception e then (rollback_engines source (rollback_engines target w'), Inl e)
             else (w', Inl e)
         | (w', Inr Nothing_to_do) \<Rightarrow> (w', Inr ())
         | (w', Inr Synced) \<Rightarrow> (commit_engines source (commit_engines target w'), Inr ()))"

section \<open>Reasoning about programs\<close>

text \<open>
  \<open>hoare P m Q X\<close>: from a world where \<open>P\<close> holds, \<open>m\<close> ends in a world where \<open>Q\<close>
  holds of its value, or raises in a world where \<open>X\<close> holds of the exception.
\<close>

definition hoare ::
  "('o world \<Rightarrow> bool) \<Rightarrow> ('o, 'a) prog \<Rightarrow> ('a \<Rightarrow> 'o world \<Rightarrow> bool) \<Rightarrow>
   (exn \<Rightarrow> 'o world \<Rightarrow> bool) \<Rightarrow> bool" where
  "hoare P m Q X =
     (\<forall>w. P w \<longrightarrow> (case m w of (w', Inl e) \<Rightarrow> X e w' | (w', Inr x) \<Rightarrow> Q x w'))"

lemma hoareD:
  "hoare P m Q X \<Longrightarrow> P w \<Longrightarrow> m w = (w', r) \<Longrightarrow> (case r of Inl e \<Rightarrow> X e w' | Inr x \<Rightarrow> Q x w')"
  by (auto simp: hoare_def split: sum.splits)

lemma hoare_ret: "(\<And>w. P w \<Longrightarrow> Q x w) \<Longrightarrow> hoare P (ret x) Q X"
  by (simp add: hoare_def ret_def)

lemma hoare_raise: "(\<And>w. P w \<Longrightarrow> X e w) \<Longrightarrow> hoare P (raise e) Q X"
  by (simp add: hoare_def raise_def)

lemma hoare_read:
  "(\<And>w. P w \<Longrightarrow> (case f w of Inl e \<Rightarrow> X e w | Inr x \<Rightarrow> Q x w)) \<Longrightarrow> hoare P (read f) Q X"
  by (simp add: hoare_def read_def)

lemma hoare_modify: "(\<And>w. P w \<Longrightarrow> Q () (f w)) \<Longrightarrow> hoare P (modify f) Q X"
  by (simp add: hoare_def modify_def)

lemma hoare_seq:
  "hoare P m R X \<Longrightarrow> (\<And>x. hoare (R x) (f x) Q X) \<Longrightarrow> hoare P (seq m f) Q X"
  by (fastforce simp: hoare_def seq_def split: prod.splits sum.splits)

lemma hoare_conseq:
  "hoare P' m Q' X' \<Longrightarrow> (\<And>w. P w \<Longrightarrow> P' w) \<Longrightarrow> (\<And>x w. Q' x w \<Longrightarrow> Q x w) \<Longrightarrow>
   (\<And>e w. X' e w \<Longrightarrow> X e w) \<Longrightarrow> hoare P m Q X"
  by (fastforce simp: hoare_def split: prod.splits sum.splits)

lemma hoare_for_each:
  "(\<And>x. x \<in> set xs \<Longrightarrow> hoare I (f x) (\<lambda>_. I) X) \<Longrightarrow> hoare I (for_each xs f) (\<lambda>_. I) X"
proof (induction xs)
  case Nil
  show ?case by (simp add: hoare_ret)
next
  case (Cons x xs)
  show ?case
    by (simp, rule hoare_seq [where R = "\<lambda>_. I"]) (simp_all add: Cons)
qed

lemma hoare_run_op:
  "(\<And>w s' r. P w \<Longrightarrow> f (stores w) = (s', r) \<Longrightarrow>
      (case r of
         Inl e \<Rightarrow> X e (\<lambda>e. (w e)\<lparr>current := (current (w e))\<lparr>store := s' e\<rparr>\<rparr>)
       | Inr x \<Rightarrow> Q x (\<lambda>e. (w e)\<lparr>current := (current (w e))\<lparr>store := s' e\<rparr>\<rparr>))) \<Longrightarrow>
   hoare P (run_op f) Q X"
  by (auto simp: hoare_def run_op_def split: prod.splits sum.splits)

text \<open>Invariants: a predicate kept by every outcome.\<close>

definition keeps :: "('o world \<Rightarrow> bool) \<Rightarrow> ('o, 'a) prog \<Rightarrow> bool" where
  "keeps I m = hoare I m (\<lambda>_. I) (\<lambda>_. I)"

lemma keepsD: "keeps I m \<Longrightarrow> I w \<Longrightarrow> m w = (w', r) \<Longrightarrow> I w'"
  by (auto simp: keeps_def dest!: hoareD split: sum.splits)

lemma keeps_ret: "keeps I (ret x)"
  by (simp add: keeps_def hoare_ret)

lemma keeps_raise: "keeps I (raise e)"
  by (simp add: keeps_def hoare_raise)

lemma keeps_read: "keeps I (read f)"
  by (simp add: keeps_def hoare_read split: sum.splits)

lemma keeps_seq: "keeps I m \<Longrightarrow> (\<And>x. keeps I (f x)) \<Longrightarrow> keeps I (seq m f)"
  unfolding keeps_def by (rule hoare_seq)

lemma keeps_for_each: "(\<And>x. keeps I (f x)) \<Longrightarrow> keeps I (for_each xs f)"
  unfolding keeps_def by (rule hoare_for_each)

lemma keeps_if: "keeps I a \<Longrightarrow> keeps I b \<Longrightarrow> keeps I (if c then a else b)"
  by simp

lemma keeps_case_option:
  "keeps I a \<Longrightarrow> (\<And>x. keeps I (b x)) \<Longrightarrow> keeps I (case v of None \<Rightarrow> a | Some x \<Rightarrow> b x)"
  by (simp split: option.splits)

lemma keeps_case_prod: "(\<And>a b. keeps I (f a b)) \<Longrightarrow> keeps I (case p of (a, b) \<Rightarrow> f a b)"
  by (simp split: prod.splits)

lemma keeps_modify: "(\<And>w. I w \<Longrightarrow> I (f w)) \<Longrightarrow> keeps I (modify f)"
  by (simp add: keeps_def hoare_modify)

lemma keeps_run_op:
  "(\<And>w s'. I w \<Longrightarrow> I (\<lambda>e. (w e)\<lparr>current := (current (w e))\<lparr>store := s' e\<rparr>\<rparr>)) \<Longrightarrow>
   keeps I (run_op f)"
  unfolding keeps_def by (rule hoare_run_op) (simp split: sum.splits)

lemmas keeps_intros =
  keeps_ret keeps_raise keeps_read keeps_seq keeps_for_each keeps_if keeps_case_option
  keeps_case_prod

lemma keeps_hoare: "keeps I m \<Longrightarrow> hoare I m (\<lambda>_. I) (\<lambda>_ _. True)"
  unfolding keeps_def by (erule hoare_conseq) simp_all


text \<open>The committed states are untouched by everything but an engine's commit.\<close>

definition committed_as :: "'o world \<Rightarrow> 'o world \<Rightarrow> bool" where
  "committed_as w0 w = (\<forall>e. committed (w e) = committed (w0 e))"

lemma keeps_committed_by_hash: "keeps (committed_as w0) (by_hash self h)"
  by (simp add: by_hash_def keeps_read)

lemma keeps_committed_update_current:
  "keeps (committed_as w0) (modify (update_current e f))"
  by (rule keeps_modify) (simp add: committed_as_def update_current_def)

lemma keeps_committed_run_op: "keeps (committed_as w0) (run_op f)"
  by (rule keeps_run_op) (simp add: committed_as_def)

lemma keeps_committed_images_add:
  "keeps (committed_as w0) (images_add n self p h c m pt pd)"
  unfolding images_add_def
  by (intro keeps_intros keeps_committed_update_current)

lemma keeps_committed_set_tag: "keeps (committed_as w0) (set_tag self h tag)"
  unfolding set_tag_def by (rule keeps_committed_update_current)

lemma keeps_committed_set_tags: "keeps (committed_as w0) (set_tags self ts)"
  unfolding set_tags_def Image_tag_def
  by (intro keeps_intros keeps_committed_set_tag keeps_committed_by_hash)

lemma keeps_committed_sync_apply:
  "keeps (committed_as w0) (sync_apply env target source download download_all handler opts meta)"
  unfolding sync_apply_def set_head_def
  by (intro keeps_intros keeps_committed_set_tag keeps_committed_set_tags
      keeps_committed_images_add keeps_committed_run_op)

lemma keeps_committed_sync_try:
  "keeps (committed_as w0) (sync_try env target source download download_all handler opts)"
  unfolding sync_try_def
  by (intro keeps_intros keeps_committed_sync_apply)

lemma sync_try_committed:
  "sync_try env target source download download_all handler opts w = (w1, r) \<Longrightarrow>
   committed (w1 e) = committed (w e)"
  using keepsD [OF keeps_committed_sync_try, of w w env target source download download_all
      handler opts w1 r]
  by (simp add: committed_as_def)

lemma sync_try_cases:
  assumes "sync_try env target source download download_all handler opts w = (w1, r)"
  shows "case gather_sync_metadata env (\<lambda>e. current (w e)) target source of
           Inl e \<Rightarrow> w1 = w \<and> r = Inl e
         | Inr meta \<Rightarrow>
             if fst meta = [] then w1 = w \<and> r = Inr Nothing_to_do
             else w1 = fst (sync_apply env target source download download_all handler opts meta w) \<and>
                  r = (case snd (sync_apply env target source download download_all handler opts
                                   meta w) of
                         Inl e \<Rightarrow> Inl e
                       | Inr _ \<Rightarrow> Inr Synced)"
  using assms
  by (auto simp: sync_try_def seq_def read_def ret_def split: sum.splits prod.splits)

lemma rollback_engines_current:
  "e \<in> {engine target, object_engine target, engine source, object_engine source} \<Longrightarrow>
   current (rollback_engines source (rollback_engines target w) e) = committed (w e)"
  by (auto simp: rollback_engines_def engine_rollback_def Let_def)

lemma rollback_engines_committed:
  "committed (rollback_engines source (rollback_engines target w) e) = committed (w e)"
  by (auto simp: rollback_engines_def engine_rollback_def Let_def)

lemma commit_engines_committed:
  "e \<in> {engine target, object_engine target, engine source, object_engine source} \<Longrightarrow>
   committed (commit_engines source (commit_engines target w) e) = current (w e)"
  by (auto simp: commit_engines_def engine_commit_def Let_def)

lemma commit_engines_current:
  "current (commit_engines source (commit_engines target w) e) = current (w e)"
  by (auto simp: commit_engines_def engine_commit_def Let_def)

section \<open>An example environment\<close>

text \<open>
  A small environment for the examples: the store of an engine lists its physical tables
  (schema and name), the table descriptors by image hash and table name, and the tables
  with pending changes. The operations that write object metadata do nothing here.
  The local repository and its remote live on two engines.
\<close>

record example_store =
  physical :: "(string \<times> string) list"
  descriptors :: "((string \<times> string) \<times> Table) list"
  changed :: "string list"

definition example_env :: "example_store env" where
  "example_env =
     \<lparr>now = 0,
      getrandbits_256 = 42,
      get_random_object_id = ''o1f0c'',
      SPLITGRAPH_META_SCHEMA = ''splitgraph_meta'',
      table_exists = (\<lambda>s schema t. (schema, t) \<in> set (physical s)),
      get_all_tables = (\<lambda>s schema. map snd (filter (\<lambda>p. fst p = schema) (physical s))),
      get_changed_tables = (\<lambda>s schema. changed s),
      get_full_table_schema = (\<lambda>s schema t. [(''k'', ''integer'', True), (''v'', ''text'', False)]),
      get_pending_changes = (\<lambda>s schema t. []),
      get_table = (\<lambda>s repo h t. map_of (descriptors s) (h, t)),
      get_tables = (\<lambda>s repo h. map (snd \<circ> fst) (filter (\<lambda>d. fst (fst d) = h) (descriptors s))),
      images_getitem = (\<lambda>dbs repo key.
         case images (dbs (engine repo)) (namespace repo, repository repo, key) of
           None \<Rightarrow> Inl (ImageNotFoundError key)
         | Some row \<Rightarrow> Inr (image_of_row key row)),
      aggregate_changes = (\<lambda>changes. (0, 0, 0)),
      gather_sync_metadata = (\<lambda>dbs target source. Inr ([], [], [], [], [])),
      manage_audit_triggers = (\<lambda>e oe s. (s, Inr ())),
      discard_pending_changes = (\<lambda>e schema s. (s(e := (s e)\<lparr>changed := []\<rparr>), Inr ())),
      delete_table = (\<lambda>e schema t s.
         (s(e := (s e)\<lparr>physical := removeAll (schema, t) (physical (s e))\<rparr>), Inr ())),
      materialize = (\<lambda>repo t dest dest_schema s.
         (s(object_engine repo := (s (object_engine repo))
              \<lparr>physical := (dest_schema, dest) # physical (s (object_engine repo))\<rparr>), Inr ())),
      record_table_as_base = (\<lambda>repo t h chunk schema ix s. (s, Inr [])),
      record_table_as_patch = (\<lambda>repo info schema h split ix s. (s, Inr ())),
      register_tables = (\<lambda>repo entries s. (s, Inr ())),
      register_objects = (\<lambda>repo metas ns s. (s, Inr ())),
      register_object_locations = (\<lambda>repo locs s. (s, Inr ())),
      download_objects = (\<lambda>target source ids locs s. (s, Inr ())),
      upload_objects = (\<lambda>source target ids handler params s. (s, Inr [])),
      slow_diff = (\<lambda>repo t h1 h2 aggregate. ret (Inr [])),
      import_tables_internal = (\<lambda>repo img tables source target_hash source_tables do_checkout
         table_queries foreign_tables parent_hash wrapper. ret target_hash)\<rparr>"

definition local_repo :: Repository where
  "local_repo = \<lparr>namespace = ''noaa'', repository = ''climate'',
                 engine = ''LOCAL'', object_engine = ''LOCAL''\<rparr>"

definition remote_repo :: Repository where
  "remote_repo = \<lparr>namespace = ''noaa'', repository = ''climate'',
                  engine = ''origin'', object_engine = ''origin''\<rparr>"

definition zero_hash :: string where
  "zero_hash = ''0000000000000000000000000000000000000000000000000000000000000000''"

definition example_db :: "example_store db" where
  "example_db =
     \<lparr>images = [(''noaa'', ''climate'', zero_hash) \<mapsto> (None, 0, None, None, None)],
      tags = [(''noaa'', ''climate'', ''HEAD'') \<mapsto> zero_hash],
      store = \<lparr>physical = [(''noaa/climate'', ''t'')], descriptors = [], changed = []\<rparr>\<rparr>"

definition example_world :: "example_store world" where
  "example_world = (\<lambda>e. \<lparr>committed = example_db, current = example_db\<rparr>)"

section \<open>Synchronization: rollback and commit\<close>

text \<open>
  \<open>registered self h d\<close>: the metadata state \<open>d\<close> has an image with the hash \<open>h\<close> in the
  repository. Every image that \<open>sync_apply\<close> was given is registered on the target when
  \<open>sync_apply\<close> returns.
\<close>

definition registered :: "Repository \<Rightarrow> string \<Rightarrow> 'o db \<Rightarrow> bool" where
  "registered self h d = (images d (namespace self, repository self, h) \<noteq> None)"

definition registered_in :: "Repository \<Rightarrow> string \<Rightarrow> 'o world \<Rightarrow> bool" where
  "registered_in self h w = registered self h (current (w (engine self)))"

lemma keeps_registered_run_op: "keeps (registered_in target h) (run_op f)"
  by (rule keeps_run_op) (simp add: registered_in_def registered_def)

lemma keeps_registered_images_add:
  "keeps (registered_in target h) (images_add n self p h' c m pt pd)"
  unfolding images_add_def
  by (intro keeps_intros keeps_modify)
     (auto simp: registered_in_def registered_def update_current_def)

lemma keeps_registered_set_tag: "keeps (registered_in target h) (set_tag self h' tag)"
  unfolding set_tag_def
  by (rule keeps_modify) (auto simp: registered_in_def registered_def update_current_def)

lemma keeps_registered_set_tags: "keeps (registered_in target h) (set_tags self ts)"
  unfolding set_tags_def Image_tag_def by_hash_def
  by (intro keeps_intros keeps_registered_set_tag)

lemma hoare_images_add_registered:
  "hoare P (images_add n target p h c m pt pd) (\<lambda>_. registered_in target h) (\<lambda>_ _. True)"
  by (auto simp: hoare_def images_add_def seq_def read_def modify_def raise_def
      registered_in_def registered_def update_current_def split: option.splits)

lemma hoare_for_each_all:
  assumes "\<And>x. hoare (\<lambda>_. True) (f x) (\<lambda>_. Q x) (\<lambda>_ _. True)"
      and "\<And>x y. keeps (Q x) (f y)"
  shows "hoare (\<lambda>_. True) (for_each xs f) (\<lambda>_ w. \<forall>x\<in>set xs. Q x w) (\<lambda>_ _. True)"
proof (induction xs)
  case Nil
  show ?case by (simp add: hoare_ret)
next
  case (Cons x xs)
  have k: "keeps (Q x) (for_each xs f)"
    by (rule keeps_for_each) (rule assms(2))
  have rest: "hoare (Q x) (for_each xs f) (\<lambda>_ w. \<forall>y\<in>set (x # xs). Q y w) (\<lambda>_ _. True)"
    using k Cons.IH
    by (fastforce simp: hoare_def keeps_def split: prod.splits sum.splits)
  show ?case
    by (simp del: set_simps, rule hoare_seq [OF assms(1)]) (rule rest)
qed

lemma sync_apply_registers:
  "hoare (\<lambda>_. True)
     (sync_apply env target source download download_all handler opts meta)
     (\<lambda>_ w. \<forall>img\<in>set (fst meta). registered_in target (image_hash img) w) (\<lambda>_ _. True)"
proof -
  obtain new_images table_meta object_locations object_meta tags'
    where meta: "meta = (new_images, table_meta, object_locations, object_meta, tags')"
    by (cases meta)
  define I :: "'a world \<Rightarrow> bool"
    where "I = (\<lambda>w. \<forall>img\<in>set new_images. registered_in target (image_hash img) w)"
  have k: "keeps I m" if "\<And>h. keeps (registered_in target h) m" for m :: "('a, 'b) prog"
    using that by (fastforce simp: keeps_def hoare_def I_def split: prod.splits sum.splits)
  show ?thesis
    unfolding sync_apply_def meta
    apply (simp only: prod.case fst_conv)
    apply (rule hoare_seq [where R = "\<lambda>_. I"])
     apply (unfold I_def)
     apply (rule hoare_for_each_all)
      apply (rule hoare_images_add_registered)
     apply (rule keeps_registered_images_add)
    apply (fold I_def)
    apply (rule keeps_hoare)
    apply (rule k)
    apply (unfold set_head_def)
    apply (intro keeps_intros keeps_registered_run_op keeps_registered_set_tag
        keeps_registered_set_tags)
    done
qed

text \<open>
  Claim C3 (amended). Let \<open>e\<close> be one of the engines of the target and the source.
  If a step of the \<^verbatim>\<open>try\<close> block of \<open>sync\<close> raises an exception of class
  \<^verbatim>\<open>Exception\<close>, from the gathering of the metadata on, then \<open>sync\<close> raises the same
  exception and on \<open>e\<close> the open transaction is rolled back: its state and the committed
  state are the committed state of before the call, so nothing that the block wrote is
  retained. An exception outside \<^verbatim>\<open>Exception\<close> is raised on with no rollback: the world
  is the one the block reached. If no step raises and there is a new image, then on \<open>e\<close>
  the transaction is committed: the committed state is the state that the block reached,
  and the open transaction continues from it; in particular every new image is registered
  in the committed state of the target. If no step raises and there is no new image,
  \<open>sync\<close> returns through the early \<^verbatim>\<open>return\<close> with the world as it was, neither
  committed nor rolled back.
\<close>

theorem sync_rollback_or_commit:
  assumes run: "sync env target source download download_all handler handler_options w = (w', r)"
      and e: "e \<in> {engine target, object_engine target, engine source, object_engine source}"
  shows "case gather_sync_metadata env (\<lambda>e. current (w e)) target source of
           Inl exn \<Rightarrow>
             r = Inl exn \<and>
             (if is_Exception exn
              then current (w' e) = committed (w e) \<and> committed (w' e) = committed (w e)
              else w' = w)
         | Inr meta \<Rightarrow>
             if fst meta = [] then r = Inr () \<and> w' = w
             else
               (case sync_apply env target source download download_all handler
                       (case handler_options of None \<Rightarrow> [] | Some d \<Rightarrow> d) meta w of
                  (w1, Inl exn) \<Rightarrow>
                    r = Inl exn \<and>
                    (if is_Exception exn
                     then current (w' e) = committed (w e) \<and> committed (w' e) = committed (w e)
                     else w' = w1)
                | (w1, Inr _) \<Rightarrow>
                    r = Inr () \<and>
                    committed (w' e) = current (w1 e) \<and> current (w' e) = current (w1 e) \<and>
                    (\<forall>img\<in>set (fst meta).
                       registered target (image_hash img) (committed (w' (engine target)))))"
proof -
  define opts where "opts = (case handler_options of None \<Rightarrow> [] | Some d \<Rightarrow> d)"
  obtain w1 r1 where t: "sync_try env target source download download_all handler opts w = (w1, r1)"
    by (cases "sync_try env target source download download_all handler opts w")
  note c = sync_try_committed [OF t]
  note k = sync_try_cases [OF t]
  show ?thesis
  proof (cases "gather_sync_metadata env (\<lambda>e. current (w e)) target source")
    case (Inl exn)
    with k have w1: "w1 = w" and r1: "r1 = Inl exn" by simp_all
    from run t have "r = Inl exn"
      "w' = (if is_Exception exn then rollback_engines source (rollback_engines target w) else w)"
      by (auto simp: sync_def opts_def [symmetric] w1 r1 split: if_splits)
    then show ?thesis
      using Inl e
      by (simp add: rollback_engines_current rollback_engines_committed del: insert_iff)
  next
    case (Inr meta)
    show ?thesis
    proof (cases "fst meta = []")
      case True
      with k Inr have "w1 = w" "r1 = Inr Nothing_to_do" by simp_all
      with run t have "r = Inr ()" "w' = w"
        by (simp_all add: sync_def opts_def [symmetric])
      then show ?thesis using Inr True by simp
    next
      case False
      obtain w2 r2 where a: "sync_apply env target source download download_all handler opts meta w
        = (w2, r2)"
        by (cases "sync_apply env target source download download_all handler opts meta w")
      from k Inr False a have w1: "w1 = w2"
        and r1: "r1 = (case r2 of Inl e \<Rightarrow> Inl e | Inr _ \<Rightarrow> Inr Synced)"
        by simp_all
      show ?thesis
      proof (cases r2)
        case (Inl exn)
        from run t have "r = Inl exn"
          "w' = (if is_Exception exn then rollback_engines source (rollback_engines target w2)
                 else w2)"
          by (auto simp: sync_def opts_def [symmetric] w1 r1 Inl split: if_splits)
        then show ?thesis
          using Inr False a Inl e c [of e]
          by (simp add: rollback_engines_current rollback_engines_committed opts_def [symmetric]
              w1 del: insert_iff)
      next
        case (Inr u)
        from run t have r: "r = Inr ()"
          and w': "w' = commit_engines source (commit_engines target w2)"
          by (simp_all add: sync_def opts_def [symmetric] w1 r1 Inr)
        from hoareD [OF sync_apply_registers _ a [unfolded Inr]]
        have reg: "\<forall>img\<in>set (fst meta). registered_in target (image_hash img) w2"
          by simp
        have com: "committed (commit_engines source (commit_engines target w2) (engine target))
          = current (w2 (engine target))"
          by (simp add: commit_engines_committed)
        show ?thesis
          using \<open>gather_sync_metadata env (\<lambda>e. current (w e)) target source = Inr meta\<close>
            False a Inr e reg
          by (simp add: r w' commit_engines_committed commit_engines_current com
              opts_def [symmetric] registered_in_def del: insert_iff)
      qed
    qed
  qed
qed

text \<open>
  Two examples. In the first the source has one new image and the registration of its
  table on the target fails: the call raises and the target is rolled back. In the second
  every step succeeds: the new image is in the committed state of the target.
\<close>

definition new_image :: Image where
  "new_image = \<lparr>image_hash = ''ab12'', parent_id = Some zero_hash, created = 7,
                comment = None, provenance_type = None, provenance_data = None\<rparr>"

definition failing_env :: "example_store env" where
  "failing_env = example_env
     \<lparr>gather_sync_metadata := (\<lambda>dbs target source.
         Inr ([new_image], [(''ab12'', ''t'', [], [''o1''])], [], [], [(''v1'', Some ''ab12'')])),
      register_tables := (\<lambda>repo entries s. (s, Inl (Raised ''connection lost'')))\<rparr>"

definition syncing_env :: "example_store env" where
  "syncing_env = example_env
     \<lparr>gather_sync_metadata := (\<lambda>dbs target source.
         Inr ([new_image], [(''ab12'', ''t'', [], [''o1''])], [], [],
              [(''HEAD'', Some ''ab12''), (''v1'', Some ''ab12'')]))\<rparr>"

lemma failing_apply:
  "snd (sync_apply failing_env local_repo remote_repo True None ''DB'' []
          ([new_image], [(''ab12'', ''t'', [], [''o1''])], [], [], [(''v1'', Some ''ab12'')])
          example_world)
     = Inl (Raised ''connection lost'')"
  by (simp add: sync_apply_def seq_def read_def ret_def raise_def
      modify_def run_op_def failing_env_def example_env_def new_image_def images_add_def
      local_repo_def remote_repo_def example_world_def example_db_def update_current_def
      set_head_def set_tag_def stores_def zero_hash_def)

lemma syncing_apply:
  "snd (sync_apply syncing_env local_repo remote_repo True None ''DB'' []
          ([new_image], [(''ab12'', ''t'', [], [''o1''])], [], [],
           [(''HEAD'', Some ''ab12''), (''v1'', Some ''ab12'')])
          example_world)
     = Inr ()"
  by (simp add: sync_apply_def seq_def read_def ret_def raise_def
      modify_def run_op_def syncing_env_def example_env_def new_image_def images_add_def
      local_repo_def remote_repo_def example_world_def example_db_def update_current_def
      set_head_def set_tag_def set_tags_def Image_tag_def by_hash_def stores_def zero_hash_def
      image_of_row_def)

theorem sync_rollback_or_commit_witness:
  "snd (sync failing_env local_repo remote_repo True None ''DB'' None example_world)
     = Inl (Raised ''connection lost'') \<and>
   current (fst (sync failing_env local_repo remote_repo True None ''DB'' None example_world)
              ''LOCAL'')
     = committed (example_world ''LOCAL'') \<and>
   snd (sync syncing_env local_repo remote_repo True None ''DB'' None example_world) = Inr () \<and>
   registered local_repo ''ab12''
     (committed (fst (sync syncing_env local_repo remote_repo True None ''DB'' None example_world)
                   ''LOCAL''))"
proof -
  have run_f: "sync failing_env local_repo remote_repo True None ''DB'' None example_world
    = (fst (sync failing_env local_repo remote_repo True None ''DB'' None example_world),
       snd (sync failing_env local_repo remote_repo True None ''DB'' None example_world))"
    by simp
  have run_s: "sync syncing_env local_repo remote_repo True None ''DB'' None example_world
    = (fst (sync syncing_env local_repo remote_repo True None ''DB'' None example_world),
       snd (sync syncing_env local_repo remote_repo True None ''DB'' None example_world))"
    by simp
  have e: "''LOCAL'' \<in> {engine local_repo, object_engine local_repo,
                         engine remote_repo, object_engine remote_repo}"
    by (simp add: local_repo_def)
  have g_f: "gather_sync_metadata failing_env (\<lambda>e. current (example_world e)) local_repo
      remote_repo
    = Inr ([new_image], [(''ab12'', ''t'', [], [''o1''])], [], [], [(''v1'', Some ''ab12'')])"
    by (simp add: failing_env_def)
  have g_s: "gather_sync_metadata syncing_env (\<lambda>e. current (example_world e)) local_repo
      remote_repo
    = Inr ([new_image], [(''ab12'', ''t'', [], [''o1''])], [], [],
           [(''HEAD'', Some ''ab12''), (''v1'', Some ''ab12'')])"
    by (simp add: syncing_env_def)
  have l: "engine local_repo = ''LOCAL''" "image_hash new_image = ''ab12''"
    by (simp_all add: local_repo_def new_image_def)
  from sync_rollback_or_commit [OF run_f e] failing_apply
  have failed: "snd (sync failing_env local_repo remote_repo True None ''DB'' None example_world)
     = Inl (Raised ''connection lost'') \<and>
   current (fst (sync failing_env local_repo remote_repo True None ''DB'' None example_world)
              ''LOCAL'')
     = committed (example_world ''LOCAL'')"
    by (simp add: g_f split_beta is_Exception_def)
  from sync_rollback_or_commit [OF run_s e] syncing_apply
  have synced: "snd (sync syncing_env local_repo remote_repo True None ''DB'' None example_world)
      = Inr () \<and>
   registered local_repo ''ab12''
     (committed (fst (sync syncing_env local_repo remote_repo True None ''DB'' None example_world)
                   ''LOCAL''))"
    by (auto simp: g_s split_beta l)
  from failed synced show ?thesis by simp
qed

text \<open>
  Claim C3 as stated fails where there is nothing to synchronize: every step succeeds,
  and a tag written in the target's open transaction before the call is still
  uncommitted after it.
\<close>

definition pending_world :: "example_store world" where
  "pending_world = example_world
     (''LOCAL'' := \<lparr>committed = example_db,
                    current = example_db\<lparr>tags := (tags example_db)
                      ((''noaa'', ''climate'', ''v1'') \<mapsto> zero_hash)\<rparr>\<rparr>)"

theorem sync_nothing_to_do_counterexample:
  "snd (sync example_env local_repo remote_repo True None ''DB'' None pending_world) = Inr () \<and>
   tags (committed (fst (sync example_env local_repo remote_repo True None ''DB'' None
                           pending_world) ''LOCAL'')) (''noaa'', ''climate'', ''v1'') = None \<and>
   tags (current (fst (sync example_env local_repo remote_repo True None ''DB'' None
                         pending_world) ''LOCAL'')) (''noaa'', ''climate'', ''v1'') = Some zero_hash"
  by (simp add: sync_def sync_try_def seq_def read_def ret_def example_env_def
      pending_world_def example_world_def example_db_def)

section \<open>Synchronization never moves the target's HEAD to a synced image\<close>


















section \<open>Commit: the new image, its parent and HEAD\<close>

lemma seq_Inr:
  "seq m f w = (w', Inr y) \<Longrightarrow> \<exists>w1 x. m w = (w1, Inr x) \<and> f x w1 = (w', Inr y)"
  by (auto simp: seq_def split: prod.splits sum.splits)

lemma hex_digit_in: "d < 16 \<Longrightarrow> hex_digit d \<in> set ''0123456789abcdef''"
proof -
  assume "d < 16"
  then have "d = 0 \<or> d = 1 \<or> d = 2 \<or> d = 3 \<or> d = 4 \<or> d = 5 \<or> d = 6 \<or> d = 7 \<or> d = 8 \<or>
      d = 9 \<or> d = 10 \<or> d = 11 \<or> d = 12 \<or> d = 13 \<or> d = 14 \<or> d = 15"
    by arith
  then show ?thesis
    by (auto simp: hex_digit_def)
qed

lemma hex_chars: "set (hex n) \<subseteq> set ''0123456789abcdef''"
proof (induction n rule: hex.induct)
  case (1 n)
  show ?case
  proof (cases "n < 16")
    case True
    then show ?thesis
      using hex_digit_in [of n] by (subst hex.simps) simp
  next
    case False
    have "n mod 16 < 16" by simp
    from hex_digit_in [OF this] "1" [OF False] False show ?thesis
      by (subst hex.simps) simp
  qed
qed

lemma hex_length: "0 < k \<Longrightarrow> n < 16 ^ k \<Longrightarrow> length (hex n) \<le> k"
proof (induction n arbitrary: k rule: hex.induct)
  case (1 n)
  show ?case
  proof (cases "n < 16")
    case True
    then show ?thesis
      using "1.prems" by (subst hex.simps) simp
  next
    case False
    with "1.prems" have k: "1 < k"
      by (cases "k = 1") auto
    then obtain j where j: "k = Suc j" "0 < j"
      by (cases k) auto
    from "1.prems" j have "n div 16 < 16 ^ j"
      by (simp add: less_mult_imp_div_less mult.commute)
    from "1.IH" [OF False j(2) this] show ?thesis
      using False j by (subst hex.simps) simp
  qed
qed

lemma format_064x_random:
  "length (format_064x (unat (x :: 256 word))) = 64 \<and>
   set (format_064x (unat x)) \<subseteq> set ''0123456789abcdef''"
proof -
  have "unat x < 2 ^ 256"
    using unsigned_less [of x] by simp
  also have "(2::nat) ^ 256 = 16 ^ 64" by simp
  finally have "length (hex (unat x)) \<le> 64"
    by (intro hex_length) simp_all
  then have "length (format_064x (unat x)) = 64"
    by (simp add: format_064x_def)
  moreover have "set (format_064x (unat x)) \<subseteq> set ''0123456789abcdef''"
    using hex_chars [of "unat x"] by (auto simp: format_064x_def)
  ultimately show ?thesis by blast
qed

text \<open>
  \<open>meta_as w0 w\<close>: the images and the tags of every open transaction are those of
  \<open>w0\<close>. The operations of the object manager and the loop of \<open>commit_internal\<close>
  keep them.
\<close>

definition meta_as :: "'o world \<Rightarrow> 'o world \<Rightarrow> bool" where
  "meta_as w0 w =
     (\<forall>e. images (current (w e)) = images (current (w0 e)) \<and>
          tags (current (w e)) = tags (current (w0 e)))"

lemma keeps_meta_run_op: "keeps (meta_as w0) (run_op f)"
  by (rule keeps_run_op) (simp add: meta_as_def)

lemma keeps_meta_commit_table:
  "keeps (meta_as w0)
     (commit_table env self hd0 h snap_only chunk_size split_changeset schema ix chg t)"
  unfolding commit_table_def Let_def
  by (intro keeps_intros keeps_meta_run_op)

lemma keeps_meta_commit_internal:
  "keeps (meta_as w0)
     (commit_internal env self hd0 h snap_only chunk_size split_changeset schema ix)"
  unfolding commit_internal_def Let_def
  by (intro keeps_intros keeps_meta_run_op keeps_meta_commit_table)

lemma commit_internal_meta:
  assumes "commit_internal env self hd0 h snap_only chunk_size split_changeset schema ix w = (w1, r)"
  shows "images (current (w1 e)) = images (current (w e)) \<and>
         tags (current (w1 e)) = tags (current (w e))"
  using keepsD [OF keeps_meta_commit_internal _ assms, of w] by (simp add: meta_as_def)

lemma run_op_meta:
  assumes "run_op f w = (w1, r)"
  shows "images (current (w1 e)) = images (current (w e)) \<and>
         tags (current (w1 e)) = tags (current (w e))"
  using keepsD [OF keeps_meta_run_op _ assms, of w] by (simp add: meta_as_def)

lemma modify_Inr: "modify f w = (w1, r) \<Longrightarrow> w1 = f w"
  by (simp add: modify_def)

lemma by_hash_Inr:
  "by_hash self h w = (w1, Inr img) \<Longrightarrow>
   w1 = w \<and> (\<exists>row. images (current (w (engine self))) (namespace self, repository self, h)
                      = Some row \<and> img = image_of_row h row)"
  by (auto simp: by_hash_def read_def split: option.splits)

lemma head_Inr:
  "head self w = (w1, Inr hd0) \<Longrightarrow>
   w1 = w \<and> map_option image_hash hd0
              = tags (current (w (engine self))) (namespace self, repository self, ''HEAD'')"
  by (auto simp: head_def by_tag_def by_hash_def seq_def read_def ret_def raise_def
      image_of_row_def split: option.splits prod.splits sum.splits if_splits)

lemma images_add_Inr:
  "images_add n self p h c m pt pd w = (w1, Inr u) \<Longrightarrow>
   images (current (w (engine self))) (namespace self, repository self, h) = None \<and>
   w1 = update_current (engine self)
          (\<lambda>d. d\<lparr>images := (images d)((namespace self, repository self, h) \<mapsto>
                   (p, (case c of None \<Rightarrow> n | Some t \<Rightarrow> t), m, pt, pd))\<rparr>) w"
  by (auto simp: images_add_def seq_def read_def raise_def modify_def split: option.splits)

text \<open>
  Claim C4. When \<open>commit\<close> returns an image, that image has the caller's hash when one
  was given and otherwise the 64 hexadecimal digits of the 256 random bits; its parent is
  what \<^verbatim>\<open>HEAD\<close> pointed at when \<open>commit\<close> was called (the hash of the HEAD image, or
  \<open>None\<close> when the repository had no \<^verbatim>\<open>HEAD\<close>); the image was not registered before
  and is registered after, with that parent; and \<^verbatim>\<open>HEAD\<close> points at the new image, in the
  open transaction and, since the metadata engine was committed, in the committed state.
\<close>

theorem commit_registers_image_and_moves_head:
  assumes run: "commit env self image_hash' comment' snap_only chunk_size split_changeset
                  extra_indexes w = (w', Inr img)"
  shows "img = \<lparr>image_hash = (case image_hash' of
                                None \<Rightarrow> format_064x (unat (getrandbits_256 env))
                              | Some h \<Rightarrow> h),
                parent_id = tags (current (w (engine self)))
                              (namespace self, repository self, ''HEAD''),
                created = now env, comment = comment',
                provenance_type = None, provenance_data = None\<rparr> \<and>
         images (current (w (engine self))) (namespace self, repository self, image_hash img)
           = None \<and>
         images (current (w' (engine self))) (namespace self, repository self, image_hash img)
           = Some (parent_id img, now env, comment', None, None) \<and>
         tags (current (w' (engine self))) (namespace self, repository self, ''HEAD'')
           = Some (image_hash img) \<and>
         committed (w' (engine self)) = current (w' (engine self)) \<and>
         (if image_hash' = None
          then length (image_hash img) = 64 \<and> set (image_hash img) \<subseteq> set ''0123456789abcdef''
          else True)"
proof -
  define h where "h = (case image_hash' of
                         None \<Rightarrow> format_064x (unat (getrandbits_256 env))
                       | Some h \<Rightarrow> h)"
  define E where "E = engine self"
  define K where "K = (namespace self, repository self, ''HEAD'')"
  define Kh where "Kh = (namespace self, repository self, h)"
  from seq_Inr [OF run [unfolded commit_def]] obtain w1 where
    s1: "modify (engine_commit (object_engine self)) w = (w1, Inr ())" and
    r1: "seq (run_op (manage_audit_triggers env (engine self) (object_engine self)))
          (\<lambda>_. seq (head self)
          (\<lambda>head'.
             let image_hash'' = (case image_hash' of
                                   None \<Rightarrow> format_064x (unat (getrandbits_256 env))
                                 | Some h \<Rightarrow> h)
             in seq (images_add (now env) self (map_option image_hash head') image_hash'' None
                       comment' None None)
          (\<lambda>_. seq (commit_internal env self head' image_hash'' snap_only chunk_size
                       split_changeset None extra_indexes)
          (\<lambda>_. seq (set_head self (Some image_hash''))
          (\<lambda>_. seq (run_op (manage_audit_triggers env (engine self) (object_engine self)))
          (\<lambda>_. seq (modify (engine_commit (object_engine self)))
          (\<lambda>_. seq (modify (engine_commit (engine self)))
          (\<lambda>_. by_hash self image_hash'')))))))) w1 = (w', Inr img)"
    by auto
  from seq_Inr [OF r1] obtain w2 where
    s2: "run_op (manage_audit_triggers env (engine self) (object_engine self)) w1 = (w2, Inr ())"
    and r2: "seq (head self)
          (\<lambda>head'.
             seq (images_add (now env) self (map_option image_hash head') h None
                       comment' None None)
          (\<lambda>_. seq (commit_internal env self head' h snap_only chunk_size
                       split_changeset None extra_indexes)
          (\<lambda>_. seq (set_head self (Some h))
          (\<lambda>_. seq (run_op (manage_audit_triggers env (engine self) (object_engine self)))
          (\<lambda>_. seq (modify (engine_commit (object_engine self)))
          (\<lambda>_. seq (modify (engine_commit (engine self)))
          (\<lambda>_. by_hash self h))))))) w2 = (w', Inr img)"
    by (auto simp: h_def Let_def)
  from seq_Inr [OF r2] obtain w3 hd0 where
    s3: "head self w2 = (w3, Inr hd0)" and
    r3: "seq (images_add (now env) self (map_option image_hash hd0) h None comment' None None)
          (\<lambda>_. seq (commit_internal env self hd0 h snap_only chunk_size
                       split_changeset None extra_indexes)
          (\<lambda>_. seq (set_head self (Some h))
          (\<lambda>_. seq (run_op (manage_audit_triggers env (engine self) (object_engine self)))
          (\<lambda>_. seq (modify (engine_commit (object_engine self)))
          (\<lambda>_. seq (modify (engine_commit (engine self)))
          (\<lambda>_. by_hash self h)))))) w3 = (w', Inr img)"
    by auto
  from seq_Inr [OF r3] obtain w4 where
    s4: "images_add (now env) self (map_option image_hash hd0) h None comment' None None w3
           = (w4, Inr ())" and
    r4: "seq (commit_internal env self hd0 h snap_only chunk_size split_changeset None
                extra_indexes)
          (\<lambda>_. seq (set_head self (Some h))
          (\<lambda>_. seq (run_op (manage_audit_triggers env (engine self) (object_engine self)))
          (\<lambda>_. seq (modify (engine_commit (object_engine self)))
          (\<lambda>_. seq (modify (engine_commit (engine self)))
          (\<lambda>_. by_hash self h))))) w4 = (w', Inr img)"
    by auto
  from seq_Inr [OF r4] obtain w5 where
    s5: "commit_internal env self hd0 h snap_only chunk_size split_changeset None extra_indexes
           w4 = (w5, Inr ())" and
    r5: "seq (set_head self (Some h))
          (\<lambda>_. seq (run_op (manage_audit_triggers env (engine self) (object_engine self)))
          (\<lambda>_. seq (modify (engine_commit (object_engine self)))
          (\<lambda>_. seq (modify (engine_commit (engine self)))
          (\<lambda>_. by_hash self h)))) w5 = (w', Inr img)"
    by auto
  from seq_Inr [OF r5] obtain w6 where
    s6: "set_head self (Some h) w5 = (w6, Inr ())" and
    r6: "seq (run_op (manage_audit_triggers env (engine self) (object_engine self)))
          (\<lambda>_. seq (modify (engine_commit (object_engine self)))
          (\<lambda>_. seq (modify (engine_commit (engine self)))
          (\<lambda>_. by_hash self h))) w6 = (w', Inr img)"
    by auto
  from seq_Inr [OF r6] obtain w7 where
    s7: "run_op (manage_audit_triggers env (engine self) (object_engine self)) w6 = (w7, Inr ())"
    and r7: "seq (modify (engine_commit (object_engine self)))
          (\<lambda>_. seq (modify (engine_commit (engine self)))
          (\<lambda>_. by_hash self h)) w7 = (w', Inr img)"
    by auto
  from seq_Inr [OF r7] obtain w8 where
    s8: "modify (engine_commit (object_engine self)) w7 = (w8, Inr ())" and
    r8: "seq (modify (engine_commit (engine self))) (\<lambda>_. by_hash self h) w8 = (w', Inr img)"
    by auto
  from seq_Inr [OF r8] obtain w9 where
    s9: "modify (engine_commit (engine self)) w8 = (w9, Inr ())" and
    r9: "by_hash self h w9 = (w', Inr img)"
    by auto
  have c1: "current (w1 E) = current (w E)"
    using modify_Inr [OF s1] by (simp add: engine_commit_def)
  note m2 = run_op_meta [OF s2, of E]
  note h3 = head_Inr [OF s3]
  note a4 = images_add_Inr [OF s4]
  note m5 = commit_internal_meta [OF s5, of E]
  have w6: "w6 = update_current (engine self)
              (\<lambda>d. d\<lparr>tags := (tags d)((namespace self, repository self, ''HEAD'') := Some h)\<rparr>) w5"
    using s6 by (simp add: set_head_def set_tag_def modify_def)
  note m7 = run_op_meta [OF s7, of E]
  have c8: "current (w8 E) = current (w7 E)"
    using modify_Inr [OF s8] by (simp add: engine_commit_def)
  have c9: "current (w9 E) = current (w8 E)" "committed (w9 E) = current (w9 E)"
    using modify_Inr [OF s9] by (simp_all add: engine_commit_def E_def)
  note b = by_hash_Inr [OF r9]
  have parent: "map_option image_hash hd0 = tags (current (w E)) K"
    using h3 m2 c1 by (simp add: E_def K_def)
  have fresh: "images (current (w E)) Kh = None"
    using a4 h3 m2 c1 by (simp add: E_def Kh_def)
  have images9: "images (current (w9 E)) Kh
                   = Some (tags (current (w E)) K, now env, comment', None, None)"
    using c9 c8 m7 w6 m5 a4 parent by (simp add: E_def Kh_def update_current_def)
  have tags9: "tags (current (w9 E)) K = Some h"
    using c9 c8 m7 w6 by (simp add: E_def K_def update_current_def)
  have img: "img = \<lparr>image_hash = h, parent_id = tags (current (w E)) K, created = now env,
                    comment = comment', provenance_type = None, provenance_data = None\<rparr>"
    using b images9 by (auto simp: E_def Kh_def image_of_row_def)
  have w': "w' = w9" using b by simp
  have random: "length h = 64 \<and> set h \<subseteq> set ''0123456789abcdef''" if "image_hash' = None"
    using that format_064x_random [of "getrandbits_256 env"] by (simp add: h_def)
  show ?thesis
    using img fresh images9 tags9 c9(2) random
    by (simp add: w' h_def [symmetric] E_def [symmetric] K_def [symmetric] Kh_def [symmetric])
qed

text \<open>
  An example: the first commit of the example repository, whose \<^verbatim>\<open>HEAD\<close> is the initial
  image, with no hash given; the random bits are 42.
\<close>

definition committed_image :: Image where
  "committed_image =
     \<lparr>image_hash = ''000000000000000000000000000000000000000000000000000000000000002a'',
      parent_id = Some zero_hash, created = 0, comment = Some ''first commit'',
      provenance_type = None, provenance_data = None\<rparr>"

lemma hex_42: "format_064x 42 = ''000000000000000000000000000000000000000000000000000000000000002a''"
  by code_simp

lemma example_commit:
  "snd (commit example_env local_repo None (Some ''first commit'') False (Some 10000) False None
          example_world) = Inr committed_image"
  unfolding commit_def commit_internal_def commit_table_def
  by (simp add: hex_42 seq_def read_def ret_def raise_def modify_def run_op_def head_def by_tag_def
      by_hash_def example_env_def images_add_def local_repo_def example_world_def example_db_def
      update_current_def set_head_def set_tag_def stores_def zero_hash_def image_of_row_def
      engine_commit_def to_schema_def committed_image_def Let_def)

theorem commit_registers_image_and_moves_head_witness:
  "snd (commit example_env local_repo None (Some ''first commit'') False (Some 10000) False None
          example_world) = Inr committed_image \<and>
   tags (current (example_world ''LOCAL'')) (''noaa'', ''climate'', ''HEAD'') = Some zero_hash \<and>
   parent_id committed_image = Some zero_hash \<and>
   length (image_hash committed_image) = 64 \<and>
   tags (current (fst (commit example_env local_repo None (Some ''first commit'') False
                         (Some 10000) False None example_world) ''LOCAL''))
        (''noaa'', ''climate'', ''HEAD'') = Some (image_hash committed_image)"
proof -
  have run: "commit example_env local_repo None (Some ''first commit'') False (Some 10000) False
               None example_world
    = (fst (commit example_env local_repo None (Some ''first commit'') False (Some 10000) False
              None example_world), Inr committed_image)"
    using example_commit by (metis prod.collapse)
  have t: "tags (current (example_world ''LOCAL'')) (''noaa'', ''climate'', ''HEAD'')
             = Some zero_hash"
    by (simp add: example_world_def example_db_def)
  have e: "engine local_repo = ''LOCAL''" "namespace local_repo = ''noaa''"
    "repository local_repo = ''climate''"
    by (simp_all add: local_repo_def)
  have r: "getrandbits_256 example_env = 42" "now example_env = 0"
    by (simp_all add: example_env_def)
  show ?thesis
    using commit_registers_image_and_moves_head [OF run] example_commit t
    by (simp add: e r hex_42 committed_image_def)
qed

section \<open>Commit: how each table is recorded\<close>

lemma seq_read_Inr: "seq (read (\<lambda>w. Inr (g w))) f w = f (g w) w"
  by (simp add: seq_def read_def)

lemma seq_ret: "seq (ret x) f w = f x w"
  by (simp add: seq_def ret_def)

text \<open>
  The loop \<^verbatim>\<open>for x in xs: ...\<close> runs its body once for every element, in order, each
  round in the world that the round before left, and stops at the first round that
  raises: \<open>for_each\<close> is the fold of the rounds over the list.
\<close>

lemma fold_rounds_raised:
  "fold (\<lambda>x (w1, r). case r of Inl e \<Rightarrow> (w1, Inl e) | Inr _ \<Rightarrow> f x w1) xs (w, Inl e) = (w, Inl e)"
  by (induction xs) simp_all

lemma for_each_fold:
  "for_each xs f w =
     fold (\<lambda>x (w1, r). case r of Inl e \<Rightarrow> (w1, Inl e) | Inr _ \<Rightarrow> f x w1) xs (w, Inr ())"
proof (induction xs arbitrary: w)
  case Nil
  show ?case by (simp add: ret_def)
next
  case (Cons x xs)
  obtain w1 r where fx: "f x w = (w1, r)" by (cases "f x w")
  show ?case
  proof (cases r)
    case (Inl e)
    then show ?thesis by (simp add: seq_def fx fold_rounds_raised)
  next
    case (Inr u)
    then show ?thesis by (simp add: seq_def fx Cons.IH)
  qed
qed

text \<open>
  Claim C1. \<open>commit_internal\<close>, called as \<open>commit\<close> calls it, reads the changed tables
  of the audit once and then takes every table of the working schema, in the order of
  \<^verbatim>\<open>get_all_tables\<close>: the world after the loop is the fold of the rounds of
  \<open>commit_table\<close> over that list, each round run in the world that the round before
  left, unless a round raises, which ends the call; after the last round the pending
  changes are discarded. A round, in any world: when the table is not in the parent image
  (or there is no parent image), or \<open>snap_only\<close> is set, or the schema of the parent's
  descriptor differs from the table's current schema, the round is the call of
  \<^verbatim>\<open>record_table_as_base\<close>; otherwise, when the table is among the changed tables, it is
  the call of \<^verbatim>\<open>record_table_as_patch\<close> on the parent's descriptor; otherwise it is the
  one call of \<^verbatim>\<open>register_tables\<close> that writes, for the new image and the table, the
  parent's schema and the parent's object ids as they are: no call that records objects
  is made.
\<close>

theorem commit_table_decision:
  "commit_internal env self head' image_hash' snap_only chunk_size split_changeset None
     extra_indexes w =
     (case fold (\<lambda>table (w1, r).
                   case r of
                     Inl e \<Rightarrow> (w1, Inl e)
                   | Inr _ \<Rightarrow>
                       commit_table env self head' image_hash' snap_only chunk_size
                         split_changeset (to_schema self)
                         (case extra_indexes of None \<Rightarrow> Map.empty | Some d \<Rightarrow> d)
                         (get_changed_tables env (stores w (object_engine self)) (to_schema self))
                         table w1)
             (get_all_tables env (stores w (object_engine self)) (to_schema self))
             (w, Inr ()) of
        (w2, Inl e) \<Rightarrow> (w2, Inl e)
      | (w2, Inr _) \<Rightarrow>
          run_op (discard_pending_changes env (object_engine self) (to_schema self)) w2) \<and>
   commit_table env self head' image_hash' snap_only chunk_size split_changeset schema
     indexes changed_tables table w1 =
     (case (case head' of
              None \<Rightarrow> None
            | Some h \<Rightarrow> get_table env (stores w1 (engine self)) self (image_hash h) table) of
        None \<Rightarrow>
          seq (run_op (record_table_as_base env self table image_hash' chunk_size schema
                         (indexes table)))
            (\<lambda>_. ret ()) w1
      | Some info \<Rightarrow>
          if snap_only \<or>
             table_schema info
               \<noteq> get_full_table_schema env (stores w1 (object_engine self)) schema table
          then
            seq (run_op (record_table_as_base env self table image_hash' chunk_size schema
                           (indexes table)))
              (\<lambda>_. ret ()) w1
          else if table \<in> set changed_tables then
            run_op (record_table_as_patch env self info schema image_hash' split_changeset
                      (indexes table)) w1
          else
            run_op (register_tables env self
                      [(image_hash', table, table_schema info, objects info)]) w1)"
proof -
  have loop: "commit_internal env self head' image_hash' snap_only chunk_size split_changeset None
     extra_indexes w =
     (case fold (\<lambda>table (w1, r).
                   case r of
                     Inl e \<Rightarrow> (w1, Inl e)
                   | Inr _ \<Rightarrow>
                       commit_table env self head' image_hash' snap_only chunk_size
                         split_changeset (to_schema self)
                         (case extra_indexes of None \<Rightarrow> Map.empty | Some d \<Rightarrow> d)
                         (get_changed_tables env (stores w (object_engine self)) (to_schema self))
                         table w1)
             (get_all_tables env (stores w (object_engine self)) (to_schema self))
             (w, Inr ()) of
        (w2, Inl e) \<Rightarrow> (w2, Inl e)
      | (w2, Inr _) \<Rightarrow>
          run_op (discard_pending_changes env (object_engine self) (to_schema self)) w2)"
    by (simp add: commit_internal_def Let_def seq_read_Inr)
       (simp add: seq_def for_each_fold)
  have round: "commit_table env self head' image_hash' snap_only chunk_size split_changeset schema
     indexes changed_tables table w1 =
     (case (case head' of
              None \<Rightarrow> None
            | Some h \<Rightarrow> get_table env (stores w1 (engine self)) self (image_hash h) table) of
        None \<Rightarrow>
          seq (run_op (record_table_as_base env self table image_hash' chunk_size schema
                         (indexes table)))
            (\<lambda>_. ret ()) w1
      | Some info \<Rightarrow>
          if snap_only \<or>
             table_schema info
               \<noteq> get_full_table_schema env (stores w1 (object_engine self)) schema table
          then
            seq (run_op (record_table_as_base env self table image_hash' chunk_size schema
                           (indexes table)))
              (\<lambda>_. ret ()) w1
          else if table \<in> set changed_tables then
            run_op (record_table_as_patch env self info schema image_hash' split_changeset
                      (indexes table)) w1
          else
            run_op (register_tables env self
                      [(image_hash', table, table_schema info, objects info)]) w1)"
    by (cases head')
       (simp_all add: commit_table_def Let_def seq_read_Inr seq_ret split: option.splits)
  from loop round show ?thesis by (rule conjI)
qed

text \<open>
  An example with an object manager that writes descriptors: \<^verbatim>\<open>record_table_as_base\<close>
  stores the table under one new object, \<^verbatim>\<open>record_table_as_patch\<close> adds one new object
  to the parent's objects, and \<^verbatim>\<open>register_tables\<close> writes the descriptors it is given.
  The working schema has the tables \<open>same\<close> and \<open>edited\<close> of the parent image, of which
  \<open>edited\<close> has pending changes, and the new table \<open>fresh\<close>. After the commit the new
  image has \<open>same\<close> with the parent's object, \<open>edited\<close> with the parent's object and a
  patch, and \<open>fresh\<close> with a base snapshot.
\<close>

definition add_descriptor :: "string \<Rightarrow> Table \<Rightarrow> example_store \<Rightarrow> example_store" where
  "add_descriptor h t s = s\<lparr>descriptors := descriptors s @ [((h, table_name t), t)]\<rparr>"

definition recording_env :: "example_store env" where
  "recording_env = example_env
     \<lparr>record_table_as_base := (\<lambda>repo t h chunk schema ix s.
         (s(engine repo := add_descriptor h
              \<lparr>table_name = t,
               table_schema = [(''k'', ''integer'', True), (''v'', ''text'', False)],
               objects = [''base_'' @ t]\<rparr> (s (engine repo))),
          Inr [''base_'' @ t])),
      record_table_as_patch := (\<lambda>repo info schema h split ix s.
         (s(engine repo := add_descriptor h
              (info\<lparr>objects := objects info @ [''patch_'' @ table_name info]\<rparr>) (s (engine repo))),
          Inr ())),
      register_tables := (\<lambda>repo entries s.
         (s(engine repo := fold (\<lambda>(h, t, sch, objs).
              add_descriptor h \<lparr>table_name = t, table_schema = sch, objects = objs\<rparr>)
              entries (s (engine repo))),
          Inr ()))\<rparr>"

definition head_image :: Image where
  "head_image = \<lparr>image_hash = zero_hash, parent_id = None, created = 0,
                 comment = None, provenance_type = None, provenance_data = None\<rparr>"

definition three_table_world :: "example_store world" where
  "three_table_world =
     (\<lambda>e. \<lparr>committed = example_db, current = example_db
         \<lparr>store := \<lparr>physical = [(''noaa/climate'', ''same''), (''noaa/climate'', ''edited''),
                                (''noaa/climate'', ''fresh'')],
                    descriptors =
                      [((zero_hash, ''same''),
                        \<lparr>table_name = ''same'',
                         table_schema = [(''k'', ''integer'', True), (''v'', ''text'', False)],
                         objects = [''o1'']\<rparr>),
                       ((zero_hash, ''edited''),
                        \<lparr>table_name = ''edited'',
                         table_schema = [(''k'', ''integer'', True), (''v'', ''text'', False)],
                         objects = [''o2'']\<rparr>)],
                    changed = [''edited'']\<rparr>\<rparr>\<rparr>)"

theorem commit_table_decision_witness:
  "snd (commit_internal recording_env local_repo (Some head_image) ''ab12'' False None False
          None None three_table_world) = Inr () \<and>
   map (\<lambda>t. map_option objects
              (map_of (descriptors
                 (stores (fst (commit_internal recording_env local_repo (Some head_image) ''ab12''
                                 False None False None None three_table_world)) ''LOCAL''))
                 (''ab12'', t)))
     [''same'', ''edited'', ''fresh'']
   = [Some [''o1''], Some [''o2'', ''patch_edited''], Some [''base_fresh'']]"
  unfolding commit_table_decision [THEN conjunct1]
  by (simp add: commit_table_decision [THEN conjunct2] recording_env_def example_env_def
      local_repo_def head_image_def three_table_world_def example_db_def stores_def
      to_schema_def run_op_def seq_def ret_def add_descriptor_def zero_hash_def)

section \<open>Diff: when the result is a bare boolean\<close>

lemma table_exists_at_reads:
  "\<exists>e. table_exists_at env self table img w = (w, Inr e)"
  by (auto simp: table_exists_at_def read_def split: option.splits)

lemma resolve_image_reads:
  "resolve_image self ref w = (w1, r) \<Longrightarrow> w1 = w"
  by (auto simp: resolve_image_def by_hash_def read_def ret_def split: image_ref.splits)

lemma seq_val: "m w = (w1, Inr x) \<Longrightarrow> seq m f w = f x w1"
  by (simp add: seq_def)

lemma seq_exn: "m w = (w1, Inl e) \<Longrightarrow> seq m f w = (w1, Inl e)"
  by (simp add: seq_def)

lemma seq_not_bare:
  "(\<And>x w1. f x w1 \<noteq> (w', Inr (Bare b))) \<Longrightarrow> seq m f w \<noteq> (w', Inr (Bare b))"
  by (auto simp: seq_def split: prod.splits sum.splits)

lemma diff_rest_not_bare:
  "seq (head self)
     (\<lambda>head'.
        if Some i1 = head' \<and> i2 = None \<and> aggregate then
          read (\<lambda>w. Inr (Counts (aggregate_changes env
                  (get_pending_changes env (stores w (object_engine self)) (to_schema self)
                     table))))
        else
          seq (case i2 of
                 None \<Rightarrow> ret False
               | Some j \<Rightarrow>
                   seq (Image_get_table env self i1 table)
                     (\<lambda>t1. seq (Image_get_table env self j table)
                     (\<lambda>t2. ret (set (objects t1) = set (objects t2)))))
            (\<lambda>same.
               if same then ret (if \<not> aggregate then Rows [] else Counts (0, 0, 0))
               else seq (slow_diff env self table (hash_of (Some i1)) (hash_of i2) aggregate)
                      (\<lambda>d. ret (case d of Inl c \<Rightarrow> Counts c | Inr rows \<Rightarrow> Rows rows)))) w
   \<noteq> (w', Inr (Bare b))"
proof (rule seq_not_bare)
  fix head' :: "Image option" and w1 :: "'a world"
  have tail: "seq m
            (\<lambda>same.
               if same then ret (if \<not> aggregate then Rows [] else Counts (0, 0, 0))
               else seq (slow_diff env self table (hash_of (Some i1)) (hash_of i2) aggregate)
                      (\<lambda>d. ret (case d of Inl c \<Rightarrow> Counts c | Inr rows \<Rightarrow> Rows rows))) w1
     \<noteq> (w', Inr (Bare b))" for m
  proof (rule seq_not_bare)
    fix same :: bool and w2 :: "'a world"
    have "seq (slow_diff env self table (hash_of (Some i1)) (hash_of i2) aggregate)
            (\<lambda>d. ret (case d of Inl c \<Rightarrow> Counts c | Inr rows \<Rightarrow> Rows rows)) w2
          \<noteq> (w', Inr (Bare b))"
      by (rule seq_not_bare) (simp add: ret_def split: sum.splits)
    then show "(if same then ret (if \<not> aggregate then Rows [] else Counts (0, 0, 0))
           else seq (slow_diff env self table (hash_of (Some i1)) (hash_of i2) aggregate)
                  (\<lambda>d. ret (case d of Inl c \<Rightarrow> Counts c | Inr rows \<Rightarrow> Rows rows))) w2
          \<noteq> (w', Inr (Bare b))"
      by (simp add: ret_def)
  qed
  show "(if Some i1 = head' \<and> i2 = None \<and> aggregate then
          read (\<lambda>w. Inr (Counts (aggregate_changes env
                  (get_pending_changes env (stores w (object_engine self)) (to_schema self)
                     table))))
        else
          seq (case i2 of
                 None \<Rightarrow> ret False
               | Some j \<Rightarrow>
                   seq (Image_get_table env self i1 table)
                     (\<lambda>t1. seq (Image_get_table env self j table)
                     (\<lambda>t2. ret (set (objects t1) = set (objects t2)))))
            (\<lambda>same.
               if same then ret (if \<not> aggregate then Rows [] else Counts (0, 0, 0))
               else seq (slow_diff env self table (hash_of (Some i1)) (hash_of i2) aggregate)
                      (\<lambda>d. ret (case d of Inl c \<Rightarrow> Counts c | Inr rows \<Rightarrow> Rows rows)))) w1
        \<noteq> (w', Inr (Bare b))"
    using tail by (simp add: read_def)
qed

lemma diff_resolved:
  assumes r1: "resolve_image self image_1 w = (w, Inr i1)"
      and r2: "case image_2 of
                 None \<Rightarrow> i2 = None
               | Some ref \<Rightarrow> (\<exists>j. resolve_image self ref w = (w, Inr j) \<and> i2 = Some j)"
      and e1: "table_exists_at env self table (Some i1) w = (w, Inr e1)"
      and e2: "table_exists_at env self table i2 w = (w, Inr e2)"
  shows "diff env self table image_1 image_2 aggregate w = (w', Inr (Bare b)) \<longleftrightarrow>
         w' = w \<and> (if e1 then \<not> e2 \<and> \<not> b else b)"
proof -
  have second: "seq (case image_2 of
                       None \<Rightarrow> ret None
                     | Some ref \<Rightarrow> seq (resolve_image self ref) (\<lambda>i. ret (Some i))) f w
                  = f i2 w" for f :: "Image option \<Rightarrow> ('a, diff_result) prog"
  proof (cases image_2)
    case None
    with r2 show ?thesis by (simp add: seq_ret)
  next
    case (Some ref)
    with r2 obtain j where j: "resolve_image self ref w = (w, Inr j)" "i2 = Some j" by auto
    have "seq (resolve_image self ref) (\<lambda>i. ret (Some i)) w = (w, Inr (Some j))"
      by (simp add: seq_val [of "resolve_image self ref" w, OF j(1)] ret_def)
    from seq_val [of "seq (resolve_image self ref) (\<lambda>i. ret (Some i))" w, OF this]
    show ?thesis by (simp add: Some j(2))
  qed
  show ?thesis
    using diff_rest_not_bare [of self i1 i2 aggregate env table w w' b]
    by (auto simp: diff_def seq_val [of "resolve_image self image_1" w, OF r1] second
        seq_val [of "table_exists_at env self table (Some i1)" w, OF e1]
        seq_val [of "table_exists_at env self table i2" w, OF e2] ret_def)
qed

text \<open>
  Claim C2 (amended). \<open>diff\<close> returns the bare boolean \<open>b\<close> exactly when both image
  arguments resolve and either the table is absent from the first image and \<open>b\<close> is
  true, whether or not the second image (or the staging area) has the table, or the
  table is in the first image, absent from the second, and \<open>b\<close> is false; the world is
  then unchanged. So a table added between the images gives true and a table removed
  gives false, as the claim says, and the one other case of a bare boolean is a table
  absent from both, which gives true.
\<close>

theorem diff_bare_boolean:
  "diff env self table image_1 image_2 aggregate w = (w', Inr (Bare b)) \<longleftrightarrow>
   (\<exists>i1 i2 e1 e2.
      resolve_image self image_1 w = (w, Inr i1) \<and>
      (case image_2 of
         None \<Rightarrow> i2 = None
       | Some ref \<Rightarrow> (\<exists>j. resolve_image self ref w = (w, Inr j) \<and> i2 = Some j)) \<and>
      table_exists_at env self table (Some i1) w = (w, Inr e1) \<and>
      table_exists_at env self table i2 w = (w, Inr e2) \<and>
      w' = w \<and> (if e1 then \<not> e2 \<and> \<not> b else b))"
proof
  assume run: "diff env self table image_1 image_2 aggregate w = (w', Inr (Bare b))"
  from seq_Inr [OF run [unfolded diff_def]]
  have "\<exists>w1 i1. resolve_image self image_1 w = (w1, Inr i1) \<and>
          (\<exists>w2 i2. (case image_2 of
                       None \<Rightarrow> ret None
                     | Some ref \<Rightarrow> seq (resolve_image self ref) (\<lambda>i. ret (Some i))) w1
                    = (w2, Inr i2))"
    by (blast dest: seq_Inr)
  then obtain w1 i1 w2 i2 where
    p1: "resolve_image self image_1 w = (w1, Inr i1)" and
    p2: "(case image_2 of
            None \<Rightarrow> ret None
          | Some ref \<Rightarrow> seq (resolve_image self ref) (\<lambda>i. ret (Some i))) w1 = (w2, Inr i2)"
    by blast
  from p1 have w1: "w1 = w" by (rule resolve_image_reads)
  note a1 = p1 [unfolded w1]
  have a2: "case image_2 of
         None \<Rightarrow> i2 = None
       | Some ref \<Rightarrow> (\<exists>j. resolve_image self ref w = (w, Inr j) \<and> i2 = Some j)"
  proof (cases image_2)
    case None
    with p2 show ?thesis by (simp add: ret_def)
  next
    case (Some ref)
    with p2 w1 have "seq (resolve_image self ref) (\<lambda>i. ret (Some i)) w = (w2, Inr i2)"
      by simp
    from seq_Inr [OF this] obtain w3 j where
      j: "resolve_image self ref w = (w3, Inr j)" "ret (Some j) w3 = (w2, Inr i2)"
      by blast
    from j(1) have "w3 = w" by (rule resolve_image_reads)
    with j Some show ?thesis by (simp add: ret_def)
  qed
  obtain e1 where e1: "table_exists_at env self table (Some i1) w = (w, Inr e1)"
    using table_exists_at_reads by blast
  obtain e2 where e2: "table_exists_at env self table i2 w = (w, Inr e2)"
    using table_exists_at_reads by blast
  from diff_resolved [OF a1 a2 e1 e2] run a1 a2 e1 e2
  show "\<exists>i1 i2 e1 e2.
      resolve_image self image_1 w = (w, Inr i1) \<and>
      (case image_2 of
         None \<Rightarrow> i2 = None
       | Some ref \<Rightarrow> (\<exists>j. resolve_image self ref w = (w, Inr j) \<and> i2 = Some j)) \<and>
      table_exists_at env self table (Some i1) w = (w, Inr e1) \<and>
      table_exists_at env self table i2 w = (w, Inr e2) \<and>
      w' = w \<and> (if e1 then \<not> e2 \<and> \<not> b else b)"
    by blast
next
  assume "\<exists>i1 i2 e1 e2.
      resolve_image self image_1 w = (w, Inr i1) \<and>
      (case image_2 of
         None \<Rightarrow> i2 = None
       | Some ref \<Rightarrow> (\<exists>j. resolve_image self ref w = (w, Inr j) \<and> i2 = Some j)) \<and>
      table_exists_at env self table (Some i1) w = (w, Inr e1) \<and>
      table_exists_at env self table i2 w = (w, Inr e2) \<and>
      w' = w \<and> (if e1 then \<not> e2 \<and> \<not> b else b)"
  then obtain i1 i2 e1 e2 where
    a: "resolve_image self image_1 w = (w, Inr i1)"
       "case image_2 of
         None \<Rightarrow> i2 = None
       | Some ref \<Rightarrow> (\<exists>j. resolve_image self ref w = (w, Inr j) \<and> i2 = Some j)"
       "table_exists_at env self table (Some i1) w = (w, Inr e1)"
       "table_exists_at env self table i2 w = (w, Inr e2)"
    and c: "w' = w \<and> (if e1 then \<not> e2 \<and> \<not> b else b)"
    by blast
  from diff_resolved [OF a] c
  show "diff env self table image_1 image_2 aggregate w = (w', Inr (Bare b))" by blast
qed

text \<open>
  Claim C2 as stated fails for a table that neither image has: in a repository with the
  initial image and a second image holding only the table \<open>t\<close>, the diff of the table
  \<open>u\<close> between the two is the bare boolean true, though \<open>u\<close> is not in the second
  image.
\<close>

definition two_image_world :: "example_store world" where
  "two_image_world =
     (\<lambda>e. \<lparr>committed = example_db, current = example_db
         \<lparr>images := (images example_db)
            ((''noaa'', ''climate'', ''ab12'') \<mapsto> (Some zero_hash, 7, None, None, None)),
          store := \<lparr>physical = [(''noaa/climate'', ''t'')],
                    descriptors = [((''ab12'', ''t''),
                       \<lparr>table_name = ''t'', table_schema = [], objects = [''o1'']\<rparr>)],
                    changed = []\<rparr>\<rparr>\<rparr>)"

theorem diff_absent_in_both_counterexample:
  "snd (diff example_env local_repo ''u'' (Hash zero_hash) (Some (Hash ''ab12'')) False
          two_image_world) = Inr (Bare True) \<and>
   snd (table_exists_at example_env local_repo ''u'' (Some new_image) two_image_world)
     = Inr False \<and>
   snd (resolve_image local_repo (Hash ''ab12'') two_image_world) = Inr new_image"
  by (simp add: diff_def resolve_image_def table_exists_at_def by_hash_def seq_def read_def
      ret_def example_env_def local_repo_def two_image_world_def example_db_def stores_def
      zero_hash_def image_of_row_def new_image_def)

section \<open>Importing tables: the clash check\<close>

text \<open>The reads of the image manager keep every predicate on the world.\<close>

lemma keeps_by_hash: "keeps I (by_hash self h)"
  by (simp add: by_hash_def keeps_read)

lemma keeps_by_tag: "keeps I (by_tag self tag raise_on_none)"
  unfolding by_tag_def by (intro keeps_intros keeps_by_hash)

lemma keeps_head: "keeps I (head self)"
  by (simp add: head_def keeps_by_tag)

lemma keeps_head_strict: "keeps I (head_strict self)"
  unfolding head_strict_def by (intro keeps_intros keeps_by_tag)

lemma import_tables_validate_reads:
  assumes "import_tables_validate env tables source_repository source_tables image_hash'
             foreign_tables table_queries w = (w1, r)"
  shows "w1 = w"
proof -
  have "keeps (\<lambda>x. x = w)
          (import_tables_validate env tables source_repository source_tables image_hash'
             foreign_tables table_queries)"
    unfolding import_tables_validate_def Let_def
    by (intro keeps_intros keeps_by_hash keeps_head_strict)
  from keepsD [OF this _ assms] show ?thesis by simp
qed

lemma import_tables_existing_reads:
  assumes "import_tables_existing env self parent_hash w = (w1, r)"
  shows "w1 = w"
proof -
  have "keeps (\<lambda>x. x = w) (import_tables_existing env self parent_hash)"
    unfolding import_tables_existing_def
    by (intro keeps_intros keeps_head)
  from keepsD [OF this _ assms] show ?thesis by simp
qed

lemma import_tables_validate_tables:
  assumes "import_tables_validate env tables source_repository source_tables image_hash'
             foreign_tables table_queries w = (w1, Inr (img, tables', source_tables', tq'))"
  shows "tables' = (if tables = [] then source_tables' else tables) \<and>
         length tables' = length source_tables'"
proof -
  from seq_Inr [OF assms [unfolded import_tables_validate_def Let_def]]
  obtain wa x where
    "seq (if source_tables = [] then
             (case x of
                None \<Rightarrow> raise AssertionError
              | Some i \<Rightarrow>
                  if \<not> foreign_tables then
                    read (\<lambda>w. Inr (get_tables env (stores w (engine source_repository))
                                     source_repository (image_hash i)))
                  else
                    read (\<lambda>w. Inr (get_all_tables env (stores w (object_engine source_repository))
                                     (to_schema source_repository))))
           else ret source_tables)
           (\<lambda>source_tables1.
      seq (if tables = [] then
             (if (case table_queries of None \<Rightarrow> [] | Some q \<Rightarrow> q) \<noteq> [] then
                raise (ValueError ''target_tables has to be defined if table_queries is True!'')
              else ret source_tables1)
           else ret tables)
           (\<lambda>tables1.
              if length tables1 \<noteq> length source_tables1
                    \<or> length source_tables1 \<noteq> length
                        (if (case table_queries of None \<Rightarrow> [] | Some q \<Rightarrow> q) = []
                         then replicate (length tables1) False
                         else (case table_queries of None \<Rightarrow> [] | Some q \<Rightarrow> q)) then
                   raise (ValueError
                     ''tables, source_tables and table_queries have mismatching lengths!'')
                 else ret (x, tables1, source_tables1,
                        (if (case table_queries of None \<Rightarrow> [] | Some q \<Rightarrow> q) = []
                         then replicate (length tables1) False
                         else (case table_queries of None \<Rightarrow> [] | Some q \<Rightarrow> q))))) wa
       = (w1, Inr (img, tables', source_tables', tq'))"
    by blast
  from seq_Inr [OF this] obtain wb st where
    "seq (if tables = [] then
             (if (case table_queries of None \<Rightarrow> [] | Some q \<Rightarrow> q) \<noteq> [] then
                raise (ValueError ''target_tables has to be defined if table_queries is True!'')
              else ret st)
           else ret tables)
           (\<lambda>tables1.
              if length tables1 \<noteq> length st
                    \<or> length st \<noteq> length
                        (if (case table_queries of None \<Rightarrow> [] | Some q \<Rightarrow> q) = []
                         then replicate (length tables1) False
                         else (case table_queries of None \<Rightarrow> [] | Some q \<Rightarrow> q)) then
                   raise (ValueError
                     ''tables, source_tables and table_queries have mismatching lengths!'')
                 else ret (x, tables1, st,
                        (if (case table_queries of None \<Rightarrow> [] | Some q \<Rightarrow> q) = []
                         then replicate (length tables1) False
                         else (case table_queries of None \<Rightarrow> [] | Some q \<Rightarrow> q)))) wb
       = (w1, Inr (img, tables', source_tables', tq'))"
    by blast
  then show ?thesis
    by (auto simp: seq_def ret_def raise_def split: if_splits)
qed

lemma head_reads: "head self w = (w1, r) \<Longrightarrow> w1 = w"
  using keepsD [OF keeps_head [of "\<lambda>x. x = w" self], of w w1 r] by simp

lemma import_tables_existing_tables:
  assumes "import_tables_existing env self parent_hash w = (w1, Inr (p, ex))"
  shows "if parent_hash \<noteq> None \<and> parent_hash \<noteq> Some [] then
           (\<exists>parent. images_getitem env (\<lambda>e. current (w e)) self (the parent_hash) = Inr parent \<and>
                     ex = get_tables env (stores w (engine self)) self (image_hash parent))
         else ex = get_all_tables env (stores w (object_engine self)) (to_schema self)"
proof (cases "parent_hash \<noteq> None \<and> parent_hash \<noteq> Some []")
  case True
  with assms show ?thesis
    by (auto simp: import_tables_existing_def seq_def read_def split: sum.splits)
next
  case False
  with assms have "seq (head self)
          (\<lambda>head1. seq (head self)
          (\<lambda>head2. read (\<lambda>w. Inr (if head1 \<noteq> None then hash_of head2 else None,
                                  get_all_tables env (stores w (object_engine self))
                                    (to_schema self))))) w = (w1, Inr (p, ex))"
    by (auto simp: import_tables_existing_def)
  from seq_Inr [OF this] obtain wa h1 where
    a: "head self w = (wa, Inr h1)" and
    "seq (head self)
          (\<lambda>head2. read (\<lambda>w. Inr (if h1 \<noteq> None then hash_of head2 else None,
                                  get_all_tables env (stores w (object_engine self))
                                    (to_schema self)))) wa = (w1, Inr (p, ex))"
    by blast
  from seq_Inr [OF this(2)] obtain wb h2 where
    b: "head self wa = (wb, Inr h2)" and
    c: "read (\<lambda>w. Inr (if h1 \<noteq> None then hash_of h2 else None,
                                  get_all_tables env (stores w (object_engine self))
                                    (to_schema self))) wb = (w1, Inr (p, ex))"
    by blast
  from head_reads [OF a] head_reads [OF b] c False show ?thesis
    by (auto simp: read_def)
qed

text \<open>
  Claim C5 (amended). When the validation of the arguments raises (the source image does
  not resolve, the assertion fails, or the lists are missing or of different lengths), or
  the parent image does not resolve, \<open>import_tables\<close> raises that exception and the world
  is unchanged. Otherwise, with \<open>tables'\<close> the requested target names (\<open>tables\<close>, or
  the source tables when \<open>tables\<close> is empty) and the existing tables those of the parent
  image when \<open>parent_hash\<close> is given and those of the working schema when it is not:
  if some requested name is an existing table, \<open>import_tables\<close> raises the clash error
  with the clashing names, and the world is unchanged: no image, descriptor or object was
  registered; if none is, \<open>import_tables\<close> is the call of \<^verbatim>\<open>_import_tables\<close>.
\<close>

theorem import_tables_clash:
  "case import_tables_validate env tables source_repository source_tables image_hash'
          foreign_tables table_queries w of
     (w1, Inl e) \<Rightarrow>
       import_tables env self tables source_repository source_tables image_hash' foreign_tables
         do_checkout target_hash table_queries parent_hash wrapper w = (w, Inl e)
   | (w1, Inr (img, tables', source_tables', table_queries')) \<Rightarrow>
       tables' = (if tables = [] then source_tables' else tables) \<and>
       (case import_tables_existing env self parent_hash w of
          (w2, Inl e) \<Rightarrow>
            import_tables env self tables source_repository source_tables image_hash'
              foreign_tables do_checkout target_hash table_queries parent_hash wrapper w
              = (w, Inl e)
        | (w2, Inr (parent_hash', existing_tables)) \<Rightarrow>
            (if parent_hash \<noteq> None \<and> parent_hash \<noteq> Some [] then
               (\<exists>parent. images_getitem env (\<lambda>e. current (w e)) self (the parent_hash)
                           = Inr parent \<and>
                         existing_tables
                           = get_tables env (stores w (engine self)) self (image_hash parent))
             else existing_tables
                    = get_all_tables env (stores w (object_engine self)) (to_schema self)) \<and>
            (if \<exists>t \<in> set tables'. t \<in> set existing_tables then
               import_tables env self tables source_repository source_tables image_hash'
                 foreign_tables do_checkout target_hash table_queries parent_hash wrapper w
                 = (w, Inl (ValueError_tables_exist
                              (filter (\<lambda>t. t \<in> set existing_tables) tables')
                              (to_schema self)))
             else
               import_tables env self tables source_repository source_tables image_hash'
                 foreign_tables do_checkout target_hash table_queries parent_hash wrapper w
                 = import_tables_internal env self img tables' source_repository
                     (case target_hash of
                        None \<Rightarrow> format_064x (unat (getrandbits_256 env))
                      | Some h \<Rightarrow> if h = [] then format_064x (unat (getrandbits_256 env)) else h)
                     source_tables' do_checkout table_queries' foreign_tables parent_hash'
                     wrapper w))"
proof -
  obtain w1 r1 where v: "import_tables_validate env tables source_repository source_tables
          image_hash' foreign_tables table_queries w = (w1, r1)"
    by (cases "import_tables_validate env tables source_repository source_tables
          image_hash' foreign_tables table_queries w")
  have w1: "w1 = w" using v by (rule import_tables_validate_reads)
  show ?thesis
  proof (cases r1)
    case (Inl e)
    with v w1 show ?thesis
      by (simp add: import_tables_def Let_def seq_def)
  next
    case (Inr x)
    obtain img tables' source_tables' tq' where x: "x = (img, tables', source_tables', tq')"
      by (cases x)
    note v' = v [unfolded w1 Inr x]
    note t = import_tables_validate_tables [OF v']
    obtain w2 r2 where ex: "import_tables_existing env self parent_hash w = (w2, r2)"
      by (cases "import_tables_existing env self parent_hash w")
    have w2: "w2 = w" using ex by (rule import_tables_existing_reads)
    show ?thesis
    proof (cases r2)
      case (Inl e)
      with v' ex w2 t show ?thesis
        by (simp add: import_tables_def Let_def seq_def)
    next
      case (Inr y)
      obtain p et where y: "y = (p, et)" by (cases y)
      note ex' = ex [unfolded w2 Inr y]
      note c = import_tables_existing_tables [OF ex']
      have f: "(filter (\<lambda>t. t \<in> set et) tables' \<noteq> []) = (\<exists>t \<in> set tables'. t \<in> set et)"
        by (auto simp: filter_empty_conv)
      show ?thesis
        using v' ex' t c f
        by (simp add: import_tables_def Let_def seq_def raise_def cong: if_cong)
    qed
  qed
qed

text \<open>
  An example: a foreign table imported under the name \<open>t\<close>, which is a table of the
  working schema, clashes. With two source tables for the one target name, the same call
  raises the error of the lengths instead, so claim C5 as stated fails there.
\<close>

definition other_repo :: Repository where
  "other_repo = \<lparr>namespace = ''noaa'', repository = ''weather'',
                 engine = ''LOCAL'', object_engine = ''LOCAL''\<rparr>"

lemma example_validate:
  "import_tables_validate example_env [''t''] other_repo [''a''] None True None example_world
     = (example_world, Inr (None, [''t''], [''a''], [False]))"
  by (simp add: import_tables_validate_def seq_def ret_def)

lemma example_existing:
  "import_tables_existing example_env local_repo None example_world
     = (example_world, Inr (Some zero_hash, [''t'']))"
  by (simp add: import_tables_existing_def head_def by_tag_def by_hash_def seq_def read_def
      ret_def example_env_def local_repo_def example_world_def example_db_def stores_def
      to_schema_def hash_of_def image_of_row_def)

lemma example_schema:
  "to_schema local_repo = ''noaa/climate''"
  "get_all_tables example_env (stores example_world (object_engine local_repo)) ''noaa/climate''
     = [''t'']"
  by (simp_all add: to_schema_def local_repo_def example_env_def example_world_def
      example_db_def stores_def)

theorem import_tables_clash_witness:
  "import_tables example_env local_repo [''t''] other_repo [''a''] None True True None None None
     None example_world
     = (example_world, Inl (ValueError_tables_exist [''t''] ''noaa/climate''))"
  using import_tables_clash [where env = example_env and tables = "[''t'']"
      and source_repository = other_repo and source_tables = "[''a'']" and image_hash' = None
      and foreign_tables = True and table_queries = None and w = example_world
      and self = local_repo and do_checkout = True and target_hash = None
      and parent_hash = None and wrapper = None]
  by (simp add: example_validate example_existing example_schema)

theorem import_tables_mismatch_counterexample:
  "snd (import_tables example_env local_repo [''t''] other_repo [''a'', ''b''] None True True
          None None None None example_world)
     = Inl (ValueError ''tables, source_tables and table_queries have mismatching lengths!'') \<and>
   ''t'' \<in> set (get_all_tables example_env (stores example_world (object_engine local_repo))
                   (to_schema local_repo))"
  by (simp add: import_tables_def import_tables_validate_def seq_def ret_def raise_def Let_def
      example_env_def local_repo_def example_world_def example_db_def stores_def to_schema_def)

section \<open>Transient materialization: the table is dropped on every exit\<close>

lemma run_op_stores:
  "run_op f w = (w1, r) \<Longrightarrow> stores w1 = fst (f (stores w)) \<and> r = snd (f (stores w))"
proof -
  assume run: "run_op f w = (w1, r)"
  obtain s' r' where f: "f (stores w) = (s', r')" by (cases "f (stores w)")
  with run have w1: "w1 = (\<lambda>e. (w e)\<lparr>current := (current (w e))\<lparr>store := s' e\<rparr>\<rparr>)" and r: "r = r'"
    by (simp_all add: run_op_def)
  show ?thesis
    by (simp add: w1 r f stores_def fun_eq_iff)
qed

lemma engine_commit_stores: "stores (engine_commit e w) = stores w"
  by (auto simp: engine_commit_def stores_def fun_eq_iff)

text \<open>
  Claim C7. Without an image hash, \<open>materialized_table\<close> is the block itself, run with
  the working schema and the table's own name: nothing is materialized and nothing is
  cleaned up. With an image hash whose image and table resolve and whose materialization
  into the metadata schema, under the name \<^verbatim>\<open>get_random_object_id()\<close> gave, succeeds: the
  block runs with that schema and name; whatever its outcome \<open>r\<close>, a value or an
  exception, \<^verbatim>\<open>delete_table\<close> is then run for that schema and name on the world the
  block left, the object engine is committed, and the outcome is \<open>r\<close> (an exception of
  \<^verbatim>\<open>delete_table\<close> itself replaces it). If the engine's \<^verbatim>\<open>delete_table\<close> drops the
  table it is given, the table does not exist after the context.
\<close>

theorem materialized_table_scope:
  "materialized_table env self table_name' None body w = body (to_schema self, table_name') w \<and>
   (by_hash self h w = (w, Inr img) \<and>
    get_table env (stores w (engine self)) self (image_hash img) table_name' = Some t \<and>
    run_op (materialize env self t (get_random_object_id env) (SPLITGRAPH_META_SCHEMA env)) w
      = (w1, Inr u) \<and>
    body (SPLITGRAPH_META_SCHEMA env, get_random_object_id env) w1 = (w2, r) \<and>
    run_op (delete_table env (object_engine self) (SPLITGRAPH_META_SCHEMA env)
              (get_random_object_id env)) w2 = (w3, d)
    \<longrightarrow>
    materialized_table env self table_name' (Some h) body w
      = (case d of
           Inl e \<Rightarrow> (w3, Inl e)
         | Inr _ \<Rightarrow> (engine_commit (object_engine self) w3, r)) \<and>
    ((\<forall>s. \<not> table_exists env
             (fst (delete_table env (object_engine self) (SPLITGRAPH_META_SCHEMA env)
                     (get_random_object_id env) s) (object_engine self))
             (SPLITGRAPH_META_SCHEMA env) (get_random_object_id env))
     \<longrightarrow>
     \<not> table_exists env
         (stores (fst (materialized_table env self table_name' (Some h) body w))
            (object_engine self))
         (SPLITGRAPH_META_SCHEMA env) (get_random_object_id env)))"
proof -
  have none: "materialized_table env self table_name' None body w
                = body (to_schema self, table_name') w"
    by (simp add: materialized_table_def)
  have some: "materialized_table env self table_name' (Some h) body w
      = (case d of
           Inl e \<Rightarrow> (w3, Inl e)
         | Inr _ \<Rightarrow> (engine_commit (object_engine self) w3, r))"
    if a: "by_hash self h w = (w, Inr img)"
      and b: "get_table env (stores w (engine self)) self (image_hash img) table_name' = Some t"
      and c: "run_op (materialize env self t (get_random_object_id env)
                (SPLITGRAPH_META_SCHEMA env)) w = (w1, Inr u)"
      and e: "body (SPLITGRAPH_META_SCHEMA env, get_random_object_id env) w1 = (w2, r)"
      and f: "run_op (delete_table env (object_engine self) (SPLITGRAPH_META_SCHEMA env)
              (get_random_object_id env)) w2 = (w3, d)"
  proof -
    have g: "Image_get_table env self img table_name' w = (w, Inr t)"
      using b by (simp add: Image_get_table_def read_def)
    show ?thesis
      by (cases d)
         (simp_all add: materialized_table_def Let_def try_finally_def e f modify_def
            seq_val [of "by_hash self h" w, OF a]
            seq_val [of "Image_get_table env self img table_name'" w, OF g]
            seq_val [of "run_op (materialize env self t (get_random_object_id env)
                (SPLITGRAPH_META_SCHEMA env))" w, OF c]
            seq_def [of "run_op (delete_table env (object_engine self)
               (SPLITGRAPH_META_SCHEMA env) (get_random_object_id env))"])
  qed
  have gone: "\<not> table_exists env
         (stores (fst (materialized_table env self table_name' (Some h) body w))
            (object_engine self))
         (SPLITGRAPH_META_SCHEMA env) (get_random_object_id env)"
    if a: "by_hash self h w = (w, Inr img)"
      and b: "get_table env (stores w (engine self)) self (image_hash img) table_name' = Some t"
      and c: "run_op (materialize env self t (get_random_object_id env)
                (SPLITGRAPH_META_SCHEMA env)) w = (w1, Inr u)"
      and e: "body (SPLITGRAPH_META_SCHEMA env, get_random_object_id env) w1 = (w2, r)"
      and f: "run_op (delete_table env (object_engine self) (SPLITGRAPH_META_SCHEMA env)
              (get_random_object_id env)) w2 = (w3, d)"
      and drop: "\<forall>s. \<not> table_exists env
             (fst (delete_table env (object_engine self) (SPLITGRAPH_META_SCHEMA env)
                     (get_random_object_id env) s) (object_engine self))
             (SPLITGRAPH_META_SCHEMA env) (get_random_object_id env)"
  proof -
    from run_op_stores [OF f] drop
    have "\<not> table_exists env (stores w3 (object_engine self))
             (SPLITGRAPH_META_SCHEMA env) (get_random_object_id env)"
      by simp
    then show ?thesis
      by (cases d) (simp_all add: some [OF a b c e f] engine_commit_stores)
  qed
  from none some gone show ?thesis by blast
qed

text \<open>
  An example: the block raises if the temporary table exists when it runs, which it does;
  after the context the exception stands and the table is gone.
\<close>

definition failing_query :: "string \<times> string \<Rightarrow> (example_store, unit) prog" where
  "failing_query handle =
     (case handle of (schema, name) \<Rightarrow>
        read (\<lambda>w. if table_exists example_env (stores w ''LOCAL'') schema name
                  then Inl (Raised ''query failed'') else Inr ()))"

theorem materialized_table_scope_witness:
  "snd (materialized_table example_env local_repo ''t'' (Some ''ab12'') failing_query
          two_image_world) = Inl (Raised ''query failed'') \<and>
   \<not> table_exists example_env
       (stores (fst (materialized_table example_env local_repo ''t'' (Some ''ab12'')
                       failing_query two_image_world)) ''LOCAL'')
       ''splitgraph_meta'' ''o1f0c''"
proof -
  define t where "t = \<lparr>table_name = ''t'', table_schema = [], objects = [''o1'']\<rparr>"
  define w1 where "w1 = fst (run_op (materialize example_env local_repo t
      (get_random_object_id example_env) (SPLITGRAPH_META_SCHEMA example_env)) two_image_world)"
  define w3 where "w3 = fst (run_op (delete_table example_env (object_engine local_repo)
      (SPLITGRAPH_META_SCHEMA example_env) (get_random_object_id example_env)) w1)"
  have names: "get_random_object_id example_env = ''o1f0c''"
    "SPLITGRAPH_META_SCHEMA example_env = ''splitgraph_meta''"
    "object_engine local_repo = ''LOCAL''"
    by (simp_all add: example_env_def local_repo_def)
  have a: "by_hash local_repo ''ab12'' two_image_world = (two_image_world, Inr new_image)"
    by (simp add: by_hash_def read_def local_repo_def two_image_world_def image_of_row_def
        new_image_def)
  have b: "get_table example_env (stores two_image_world (engine local_repo)) local_repo
             (image_hash new_image) ''t'' = Some t"
    by (simp add: example_env_def stores_def two_image_world_def new_image_def t_def)
  have c: "run_op (materialize example_env local_repo t (get_random_object_id example_env)
             (SPLITGRAPH_META_SCHEMA example_env)) two_image_world = (w1, Inr ())"
    by (simp add: w1_def run_op_def example_env_def)
  have e: "failing_query (SPLITGRAPH_META_SCHEMA example_env, get_random_object_id example_env) w1
             = (w1, Inl (Raised ''query failed''))"
    by (simp add: failing_query_def read_def w1_def run_op_def stores_def example_env_def
        local_repo_def)
  have f: "run_op (delete_table example_env (object_engine local_repo)
             (SPLITGRAPH_META_SCHEMA example_env) (get_random_object_id example_env)) w1
             = (w3, Inr ())"
    by (simp add: w3_def run_op_def example_env_def)
  have drop: "\<forall>s. \<not> table_exists example_env
             (fst (delete_table example_env (object_engine local_repo)
                     (SPLITGRAPH_META_SCHEMA example_env)
                     (get_random_object_id example_env) s) (object_engine local_repo))
             (SPLITGRAPH_META_SCHEMA example_env) (get_random_object_id example_env)"
    by (simp add: example_env_def)
  note scope = materialized_table_scope [where env = example_env and self = local_repo
      and table_name' = "''t''" and h = "''ab12''" and body = failing_query
      and w = two_image_world and img = new_image and t = t and ?w1.0 = w1 and u = "()"
      and ?w2.0 = w1 and r = "Inl (Raised ''query failed'')" and ?w3.0 = w3 and d = "Inr ()"]
  note both = scope [THEN conjunct2, THEN mp,
      OF conjI [OF a conjI [OF b conjI [OF c conjI [OF e f]]]], unfolded sum.case]
  note run = both [THEN conjunct1]
  note gone = both [THEN conjunct2, THEN mp, OF drop]
  show ?thesis
    using gone by (simp add: run names)
qed

end
